theory Spec2Isabelle
  imports Main "HOL-Library.Sublist"
begin

section \<open>Python values, errors and strings\<close>

text \<open>
  The program is \<^verbatim>\<open>syncer.py\<close>: a one-way reconciliation of SnipeIT records into NetBox.
  Exceptions of the Python code are values of \<open>py_error\<close>; a computation that may raise
  returns \<open>py_error + 'a\<close> with \<open>Inl\<close> for the exception.

  A Python string is modelled as a \<open>string\<close> whose characters stand for code points
  below 256.
\<close>

datatype py_error = TypeError | AttributeError | AssertionError | ValueError

definition bind_e :: "py_error + 'a \<Rightarrow> ('a \<Rightarrow> py_error + 'b) \<Rightarrow> py_error + 'b" where
  "bind_e m f = (case m of Inl e \<Rightarrow> Inl e | Inr x \<Rightarrow> f x)"

text \<open>\<^verbatim>\<open>x["id"]\<close> on a value that may be \<^verbatim>\<open>None\<close>: subscripting \<^verbatim>\<open>None\<close> raises TypeError.\<close>

definition deref :: "'a option \<Rightarrow> py_error + 'a" where
  "deref x = (case x of None \<Rightarrow> Inl TypeError | Some v \<Rightarrow> Inr v)"

text \<open>\<^verbatim>\<open>next((item for item in xs if cond(item)), None)\<close> where the condition may raise.\<close>

fun find_e :: "('a \<Rightarrow> py_error + bool) \<Rightarrow> 'a list \<Rightarrow> py_error + 'a option" where
  "find_e P [] = Inr None"
| "find_e P (x # xs) =
     (case P x of Inl e \<Rightarrow> Inl e
      | Inr b \<Rightarrow> if b then Inr (Some x) else find_e P xs)"

text \<open>\<^verbatim>\<open>str.isspace\<close> on the code points below 256.\<close>

definition is_space :: "char \<Rightarrow> bool" where
  "is_space c =
     (let n = (of_char c :: nat)
      in (9 \<le> n \<and> n \<le> 13) \<or> (28 \<le> n \<and> n \<le> 32) \<or> n = 133 \<or> n = 160)"

definition py_strip :: "string \<Rightarrow> string" where
  "py_strip s = rev (dropWhile is_space (rev (dropWhile is_space s)))"

text \<open>\<^verbatim>\<open>s.find(sub)\<close>: the lowest index at which \<open>sub\<close> occurs, or \<open>-1\<close>.\<close>

fun py_find_at :: "string \<Rightarrow> string \<Rightarrow> nat \<Rightarrow> int" where
  "py_find_at sub [] i = (if sub = [] then int i else - 1)"
| "py_find_at sub (c # cs) i =
     (if prefix sub (c # cs) then int i else py_find_at sub cs (Suc i))"

definition py_find :: "string \<Rightarrow> string \<Rightarrow> int" where
  "py_find sub s = py_find_at sub s 0"

text \<open>\<^verbatim>\<open>s.rfind(sub)\<close>: the highest index at which \<open>sub\<close> occurs, or \<open>-1\<close>.\<close>

fun py_rfind_at :: "string \<Rightarrow> string \<Rightarrow> nat \<Rightarrow> int" where
  "py_rfind_at sub [] i = (if sub = [] then int i else - 1)"
| "py_rfind_at sub (c # cs) i =
     (let r = py_rfind_at sub cs (Suc i)
      in if r \<noteq> - 1 then r else if prefix sub (c # cs) then int i else - 1)"

definition py_rfind :: "string \<Rightarrow> string \<Rightarrow> int" where
  "py_rfind sub s = py_rfind_at sub s 0"

text \<open>\<^verbatim>\<open>sub in s\<close> for two strings.\<close>

definition py_contains :: "string \<Rightarrow> string \<Rightarrow> bool" where
  "py_contains sub s = (py_find sub s \<noteq> - 1)"

text \<open>
  \<^verbatim>\<open>s.lower()\<close> on the code points below 256. The upper-case letters are the code points 65 to 90 and 192 to 222 without 215; the
  lower-case letter is 32 above, which is the same character with bit 5 set.
\<close>

definition lower_char :: "char \<Rightarrow> char" where
  "lower_char c =
     (let n = (of_char c :: nat)
      in if (65 \<le> n \<and> n \<le> 90) \<or> (192 \<le> n \<and> n \<le> 222 \<and> n \<noteq> 215)
         then (case c of Char b0 b1 b2 b3 b4 b5 b6 b7 \<Rightarrow> Char b0 b1 b2 b3 b4 True b6 b7)
         else c)"

definition py_lower :: "string \<Rightarrow> string" where
  "py_lower s = map lower_char s"

text \<open>
  \<^verbatim>\<open>s.replace(old, new)\<close> for a non-empty \<open>old\<close> (the program only replaces literals):
  occurrences are replaced from the left without overlap; \<open>k\<close> counts the characters of a
  replaced occurrence still to be skipped.
\<close>

fun py_replace_skip :: "string \<Rightarrow> string \<Rightarrow> nat \<Rightarrow> string \<Rightarrow> string" where
  "py_replace_skip old new k [] = []"
| "py_replace_skip old new k (c # cs) =
     (if 0 < k then py_replace_skip old new (k - 1) cs
      else if old \<noteq> [] \<and> prefix old (c # cs)
           then new @ py_replace_skip old new (length old - 1) cs
           else c # py_replace_skip old new 0 cs)"

definition py_replace :: "string \<Rightarrow> string \<Rightarrow> string \<Rightarrow> string" where
  "py_replace old new s = py_replace_skip old new 0 s"

definition CRLF :: string where
  "CRLF = [CHR 0x0D, CHR 0x0A]"

text \<open>\<^verbatim>\<open>str(x)\<close> of a value that is a string or \<^verbatim>\<open>None\<close>.\<close>

definition py_str :: "string option \<Rightarrow> string" where
  "py_str x = (case x of None \<Rightarrow> ''None'' | Some s \<Rightarrow> s)"

subsection \<open>slugify\<close>

text \<open>
  \<^verbatim>\<open>Syncer.slugify\<close>. The NFKD step followed by the ASCII encoding that ignores errors
  keeps every ASCII character; the decomposition of the other characters is not modelled,
  they are dropped. No property below depends on the value of a slug.
\<close>

definition is_word_char :: "char \<Rightarrow> bool" where
  "is_word_char c =
     (let n = (of_char c :: nat)
      in (48 \<le> n \<and> n \<le> 57) \<or> (65 \<le> n \<and> n \<le> 90) \<or> (97 \<le> n \<and> n \<le> 122) \<or> n = 95)"

definition is_sep :: "char \<Rightarrow> bool" where
  "is_sep c = (c = CHR ''-'' \<or> is_space c)"

fun collapse_sep :: "bool \<Rightarrow> string \<Rightarrow> string" where
  "collapse_sep in_run [] = []"
| "collapse_sep in_run (c # cs) =
     (if is_sep c
      then (if in_run then collapse_sep True cs else CHR ''-'' # collapse_sep True cs)
      else c # collapse_sep False cs)"

definition strip_chars :: "(char \<Rightarrow> bool) \<Rightarrow> string \<Rightarrow> string" where
  "strip_chars P s = rev (dropWhile P (rev (dropWhile P s)))"

definition slugify :: "string \<Rightarrow> string" where
  "slugify v =
     (let v1 = filter (\<lambda>c. (of_char c :: nat) < 128) v;
          v2 = filter (\<lambda>c. is_word_char c \<or> is_space c \<or> c = CHR ''-'') (py_lower v1)
      in strip_chars (\<lambda>c. c = CHR ''-'' \<or> c = CHR ''_'') (collapse_sep False v2))"

section \<open>Source records (SnipeIT)\<close>

text \<open>A nested \<^verbatim>\<open>{"id": .., "name": ..}\<close> object, and a company or manufacturer row.\<close>

record snipe_ref =
  ref_id :: int
  ref_name :: string

record snipe_model =
  m_id :: int
  m_name :: string
  m_model_number :: "string option"
  m_notes :: "string option"
  m_manufacturer :: snipe_ref

record snipe_location =
  l_id :: int
  l_name :: string
  l_parent :: "snipe_ref option"

record snipe_asset =
  a_id :: int
  a_name :: string
  a_asset_tag :: string
  a_serial :: string
  a_notes :: "string option"
  a_category :: snipe_ref
  a_model :: int
  a_location :: "snipe_ref option"
  a_rtd_location :: "snipe_ref option"
  a_company :: "snipe_ref option"

section \<open>Target records and the NetBox collaborator\<close>

datatype kind = Tenant | Manufacturer | DeviceType | Site | Location | DeviceRole | Device

text \<open>
  A NetBox record as the program reads it. The program treats every record as a
  dictionary; the attributes it reads are the fields below, \<open>None\<close> standing for a JSON
  null. A nested object is read for its \<^verbatim>\<open>id\<close> only (\<open>o_site\<close>, \<open>o_parent\<close>,
  \<open>o_device_role\<close>, \<open>o_tenant\<close>, \<open>o_device_type\<close>, \<open>o_manufacturer\<close>), except the
  manufacturer of a device type, whose \<^verbatim>\<open>name\<close> is read too. \<open>o_custom_field\<close> is
  \<^verbatim>\<open>custom_fields["snipe_object_id"]\<close>, the linkage key.
\<close>

record nb_obj =
  o_id :: int
  o_name :: "string option"
  o_slug :: string
  o_description :: string
  o_comments :: string
  o_status :: string
  o_custom_field :: "int option"
  o_model :: string
  o_part_number :: "string option"
  o_manufacturer :: "int option"
  o_manufacturer_name :: "string option"
  o_site :: "int option"
  o_parent :: "int option"
  o_asset_tag :: "string option"
  o_serial :: string
  o_device_role :: "int option"
  o_tenant :: "int option"
  o_device_type :: "int option"

text \<open>
  The dictionary sent with a create or an update: a key is absent (\<open>None\<close>) or present
  with its value. \<open>p_name\<close> and \<open>p_tenant\<close> may be present with the value \<^verbatim>\<open>None\<close>.
  \<open>p_custom_fields\<close> is \<^verbatim>\<open>{"custom_fields": {"snipe_object_id": v}}\<close>.
\<close>

record payload =
  p_id :: "int option"
  p_name :: "string option option"
  p_slug :: "string option"
  p_description :: "string option"
  p_comments :: "string option"
  p_status :: "string option"
  p_custom_fields :: "int option"
  p_model :: "string option"
  p_part_number :: "string option option"
  p_manufacturer :: "int option"
  p_is_full_depth :: "bool option"
  p_u_height :: "int option"
  p_site :: "int option"
  p_parent :: "int option"
  p_asset_tag :: "string option"
  p_serial :: "string option"
  p_role :: "int option"
  p_device_role :: "int option"
  p_tenant :: "int option option"
  p_device_type :: "int option"

definition empty_payload :: payload where
  "empty_payload =
     \<lparr>p_id = None, p_name = None, p_slug = None, p_description = None, p_comments = None,
      p_status = None, p_custom_fields = None, p_model = None, p_part_number = None,
      p_manufacturer = None, p_is_full_depth = None, p_u_height = None, p_site = None,
      p_parent = None, p_asset_tag = None, p_serial = None, p_role = None,
      p_device_role = None, p_tenant = None, p_device_type = None\<rparr>"

definition opt_len :: "'a option \<Rightarrow> nat" where
  "opt_len x = (case x of None \<Rightarrow> 0 | Some _ \<Rightarrow> 1)"

text \<open>\<^verbatim>\<open>len(d.values())\<close>: the number of keys present.\<close>

definition payload_len :: "payload \<Rightarrow> nat" where
  "payload_len p =
     opt_len (p_id p) + opt_len (p_name p) + opt_len (p_slug p) + opt_len (p_description p)
     + opt_len (p_comments p) + opt_len (p_status p) + opt_len (p_custom_fields p)
     + opt_len (p_model p) + opt_len (p_part_number p) + opt_len (p_manufacturer p)
     + opt_len (p_is_full_depth p) + opt_len (p_u_height p) + opt_len (p_site p)
     + opt_len (p_parent p) + opt_len (p_asset_tag p) + opt_len (p_serial p)
     + opt_len (p_role p) + opt_len (p_device_role p) + opt_len (p_tenant p)
     + opt_len (p_device_type p)"

datatype call = Create kind payload | Update kind "payload list"

text \<open>
  The NetBox collaborator is not part of the repository. It is modelled as a store: one
  table of records per kind and the log of the write calls received. Every call is taken
  to succeed: \<^verbatim>\<open>create\<close> appends a record with a fresh id whose attributes are those of the
  payload (an absent attribute is null or empty), and returns it; \<^verbatim>\<open>update\<close> overwrites,
  in the record with the payload's id, the attributes the payload holds. The device
  attribute sent as \<^verbatim>\<open>role\<close> on create is the one read and updated as \<^verbatim>\<open>device_role\<close>.
\<close>

record netbox =
  nb_table :: "kind \<Rightarrow> nb_obj list"
  nb_calls :: "call list"

definition fresh_id :: "nb_obj list \<Rightarrow> int" where
  "fresh_id xs = foldr (\<lambda>x m. max (o_id x) m) xs 0 + 1"

definition or_else :: "'a option \<Rightarrow> 'a \<Rightarrow> 'a" where
  "or_else x d = (case x of None \<Rightarrow> d | Some v \<Rightarrow> v)"

definition obj_of_payload :: "int \<Rightarrow> payload \<Rightarrow> nb_obj" where
  "obj_of_payload i p =
     \<lparr>o_id = i,
      o_name = or_else (p_name p) None,
      o_slug = or_else (p_slug p) [],
      o_description = or_else (p_description p) [],
      o_comments = or_else (p_comments p) [],
      o_status = or_else (p_status p) [],
      o_custom_field = p_custom_fields p,
      o_model = or_else (p_model p) [],
      o_part_number = or_else (p_part_number p) None,
      o_manufacturer = p_manufacturer p,
      o_manufacturer_name = None,
      o_site = p_site p,
      o_parent = p_parent p,
      o_asset_tag = p_asset_tag p,
      o_serial = or_else (p_serial p) [],
      o_device_role = (case p_role p of None \<Rightarrow> p_device_role p | Some r \<Rightarrow> Some r),
      o_tenant = or_else (p_tenant p) None,
      o_device_type = p_device_type p\<rparr>"

definition apply_payload :: "payload \<Rightarrow> nb_obj \<Rightarrow> nb_obj" where
  "apply_payload p x =
     x\<lparr>o_name := or_else (p_name p) (o_name x),
       o_slug := or_else (p_slug p) (o_slug x),
       o_description := or_else (p_description p) (o_description x),
       o_comments := or_else (p_comments p) (o_comments x),
       o_status := or_else (p_status p) (o_status x),
       o_custom_field := (case p_custom_fields p of None \<Rightarrow> o_custom_field x | Some v \<Rightarrow> Some v),
       o_model := or_else (p_model p) (o_model x),
       o_part_number := or_else (p_part_number p) (o_part_number x),
       o_manufacturer := (case p_manufacturer p of None \<Rightarrow> o_manufacturer x | Some v \<Rightarrow> Some v),
       o_site := (case p_site p of None \<Rightarrow> o_site x | Some v \<Rightarrow> Some v),
       o_parent := (case p_parent p of None \<Rightarrow> o_parent x | Some v \<Rightarrow> Some v),
       o_asset_tag := (case p_asset_tag p of None \<Rightarrow> o_asset_tag x | Some v \<Rightarrow> Some v),
       o_serial := or_else (p_serial p) (o_serial x),
       o_device_role :=
         (case p_device_role p of
            None \<Rightarrow> (case p_role p of None \<Rightarrow> o_device_role x | Some v \<Rightarrow> Some v)
          | Some v \<Rightarrow> Some v),
       o_tenant := or_else (p_tenant p) (o_tenant x),
       o_device_type := (case p_device_type p of None \<Rightarrow> o_device_type x | Some v \<Rightarrow> Some v)\<rparr>"

definition nb_create :: "kind \<Rightarrow> payload \<Rightarrow> netbox \<Rightarrow> nb_obj \<times> netbox" where
  "nb_create k p st =
     (let x = obj_of_payload (fresh_id (nb_table st k)) p
      in (x, st\<lparr>nb_table := (nb_table st)(k := nb_table st k @ [x]),
                nb_calls := nb_calls st @ [Create k p]\<rparr>))"

definition apply_update :: "nb_obj list \<Rightarrow> payload \<Rightarrow> nb_obj list" where
  "apply_update xs p = map (\<lambda>x. if p_id p = Some (o_id x) then apply_payload p x else x) xs"

definition nb_update :: "kind \<Rightarrow> payload list \<Rightarrow> netbox \<Rightarrow> netbox" where
  "nb_update k ps st =
     st\<lparr>nb_table := (nb_table st)(k := foldl apply_update (nb_table st k) ps),
        nb_calls := nb_calls st @ [Update k ps]\<rparr>"

text \<open>
  \<^verbatim>\<open>list(endpoint.all())\<close>: the records of a kind as read now. The name of a device
  type's manufacturer is that of the manufacturer record at the time of reading.
\<close>

definition resolve :: "netbox \<Rightarrow> nb_obj \<Rightarrow> nb_obj" where
  "resolve st x =
     x\<lparr>o_manufacturer_name :=
         (case o_manufacturer x of
            None \<Rightarrow> None
          | Some m \<Rightarrow>
              (case find (\<lambda>y. o_id y = m) (nb_table st Manufacturer) of
                 None \<Rightarrow> None
               | Some y \<Rightarrow> o_name y))\<rparr>"

definition nb_all :: "kind \<Rightarrow> netbox \<Rightarrow> nb_obj list" where
  "nb_all k st = map (resolve st) (nb_table st k)"

text \<open>
  \<^verbatim>\<open>endpoint.get(**filters)\<close>: \<^verbatim>\<open>None\<close> when nothing matches, the record when one
  does; the client raises ValueError when several do.
\<close>

definition nb_get :: "(nb_obj \<Rightarrow> bool) \<Rightarrow> kind \<Rightarrow> netbox \<Rightarrow> py_error + nb_obj option" where
  "nb_get P k st =
     (case filter P (nb_all k st) of
        [] \<Rightarrow> Inr None
      | [x] \<Rightarrow> Inr (Some x)
      | _ \<Rightarrow> Inl ValueError)"

section \<open>The Syncer\<close>

text \<open>
  The two operator flags, and the clock reading of the constructor, from which
  \<^verbatim>\<open>self.desc\<close> is made.
\<close>

record syncer =
  allow_updates :: bool
  allow_linking :: bool
  created_at :: string

definition DEFAULT_SITE_NAME :: string where
  "DEFAULT_SITE_NAME = ''Default Site''"

definition imported_desc :: "string \<Rightarrow> string" where
  "imported_desc t = ''Imported from SnipeIT '' @ t"

definition desc :: "syncer \<Rightarrow> string" where
  "desc sy = imported_desc (created_at sy)"

definition gen_update_comment :: "syncer \<Rightarrow> string \<Rightarrow> string option \<Rightarrow> string" where
  "gen_update_comment sy old_comment sfx =
     (let val = old_comment @ CRLF @ CRLF @ py_replace ''Imported'' ''Updated'' (desc sy)
      in case sfx of None \<Rightarrow> val | Some s \<Rightarrow> val @ '' ('' @ s @ '')'')"

definition initial_comments :: "string option \<Rightarrow> string" where
  "initial_comments notes =
     ''Notes from SnipeIT when initially creating this Netbox Entry. ''
     @ ''(It will not be Updated on further syncs):'' @ [CHR 0x0A, CHR 0x0A] @ '' ''
     @ py_replace CRLF (CRLF @ CRLF) (py_str notes)"

definition get_customfield_from_dict_list :: "nb_obj list \<Rightarrow> int \<Rightarrow> nb_obj option" where
  "get_customfield_from_dict_list the_list needle =
     find (\<lambda>item. o_custom_field item = Some needle) the_list"

subsection \<open>Device roles\<close>

text \<open>The first lines of \<^verbatim>\<open>__get_role_from_category\<close>: the role name of a category name.\<close>

definition role_name_of_category :: "string \<Rightarrow> string" where
  "role_name_of_category category_name =
     (let hypos = py_find ''-'' category_name
      in if 1 < hypos then py_strip (take (nat hypos) category_name) else category_name)"

text \<open>
  \<^verbatim>\<open>__get_role_from_category\<close> returns the list of roles, to which a created role is
  appended, and the role of the asset.
\<close>

definition get_role_from_category ::
  "nb_obj list \<Rightarrow> snipe_asset \<Rightarrow> netbox \<Rightarrow> (nb_obj list \<times> nb_obj) \<times> netbox" where
  "get_role_from_category netbox_roles snipe_asset st =
     (let category_name = role_name_of_category (ref_name (a_category snipe_asset));
          category_id = ref_id (a_category snipe_asset)
      in case get_customfield_from_dict_list netbox_roles category_id of
           Some role \<Rightarrow> ((netbox_roles, role), st)
         | None \<Rightarrow>
             (case find (\<lambda>item. o_name item = Some category_name) netbox_roles of
                Some role \<Rightarrow>
                  ((netbox_roles, role),
                   nb_update DeviceRole
                     [empty_payload\<lparr>p_id := Some (o_id role),
                        p_custom_fields := Some category_id\<rparr>] st)
              | None \<Rightarrow>
                  (let (role, st') =
                         nb_create DeviceRole
                           (empty_payload\<lparr>p_name := Some (Some category_name),
                              p_slug := Some (slugify category_name)\<rparr>) st
                   in ((netbox_roles @ [role], role), st'))))"

subsection \<open>Devices\<close>

text \<open>
  The site handed to \<^verbatim>\<open>__sync_device\<close>. \<^verbatim>\<open>location["site"]\<close> is the nested site of a
  location read as a dictionary (\<open>SiteRec\<close>) or \<^verbatim>\<open>None\<close> (\<open>SiteNull\<close>);
  \<^verbatim>\<open>__get_fallback_site\<close> returns the record object of the client (\<open>SiteObj\<close>); the
  last case is the bare string \<^verbatim>\<open>DEFAULT_SITE_NAME\<close> (\<open>SiteName\<close>).
\<close>

datatype site_val = SiteRec int | SiteObj int | SiteName string | SiteNull

text \<open>
  \<^verbatim>\<open>nb_site["id"]\<close>: the id of a dictionary and of a record object; a string index that
  is not an integer, and \<^verbatim>\<open>None\<close>, raise TypeError.
\<close>

definition site_id :: "site_val \<Rightarrow> py_error + int" where
  "site_id s =
     (case s of SiteRec i \<Rightarrow> Inr i
      | SiteObj i \<Rightarrow> Inr i
      | SiteName _ \<Rightarrow> Inl TypeError
      | SiteNull \<Rightarrow> Inl TypeError)"

text \<open>
  \<^verbatim>\<open>"id" in nb_site\<close>: a key test on a dictionary and a substring test on a string. The
  record object of the client has no membership method, so the test runs over its
  iteration, which yields pairs of a field name and a value: no pair equals the string
  \<^verbatim>\<open>"id"\<close> and the test is false.
\<close>

definition site_has_id :: "site_val \<Rightarrow> py_error + bool" where
  "site_has_id s =
     (case s of SiteRec _ \<Rightarrow> Inr True
      | SiteObj _ \<Rightarrow> Inr False
      | SiteName n \<Rightarrow> Inr (py_contains ''id'' n)
      | SiteNull \<Rightarrow> Inl TypeError)"

definition obj_id :: "nb_obj option \<Rightarrow> py_error + int" where
  "obj_id x = (case x of None \<Rightarrow> Inl TypeError | Some v \<Rightarrow> Inr (o_id v))"

text \<open>The stored name with the asset tag stripped, as \<^verbatim>\<open>__update_device\<close> computes it.\<close>

definition strip_tag :: "string option \<Rightarrow> string \<Rightarrow> string option" where
  "strip_tag oldname tag =
     (case oldname of
        None \<Rightarrow> None
      | Some n \<Rightarrow>
          (if 1 < py_rfind tag n then Some (take (nat (py_rfind tag n - 1)) n) else Some n))"

text \<open>
  \<^verbatim>\<open>__update_device\<close> up to the final test: the dictionary \<^verbatim>\<open>update_dict\<close>, or the
  exception raised while it is built. Nothing is written before the final test.
\<close>

definition device_update_dict ::
  "nb_obj \<Rightarrow> snipe_asset \<Rightarrow> nb_obj \<Rightarrow> site_val \<Rightarrow> nb_obj option \<Rightarrow> nb_obj option \<Rightarrow> bool
     \<Rightarrow> netbox \<Rightarrow> py_error + payload" where
  "device_update_dict nb_device snipe_device nb_role nb_site nb_tenant nb_device_type
       update_custom_field_id st =
     (let u0 = empty_payload\<lparr>p_id := Some (o_id nb_device)\<rparr>;
          u1 = (if update_custom_field_id
                then u0\<lparr>p_custom_fields := Some (a_id snipe_device)\<rparr> else u0);
          u2 = (if o_asset_tag nb_device \<noteq> Some (a_asset_tag snipe_device)
                then u1\<lparr>p_asset_tag := Some (a_asset_tag snipe_device)\<rparr> else u1);
          u3 = (if o_serial nb_device \<noteq> a_serial snipe_device
                then u2\<lparr>p_serial := Some (a_serial snipe_device)\<rparr> else u2)
      in bind_e (deref (o_site nb_device)) (\<lambda>dev_site.
         bind_e (site_id nb_site) (\<lambda>sid.
         bind_e (deref (o_device_role nb_device)) (\<lambda>dev_role.
         bind_e (deref (o_tenant nb_device)) (\<lambda>dev_tenant.
         bind_e (obj_id nb_tenant) (\<lambda>tid.
         bind_e (deref (o_device_type nb_device)) (\<lambda>dev_type.
         bind_e (obj_id nb_device_type) (\<lambda>dtid.
           (let u4 = (if dev_site \<noteq> sid then u3\<lparr>p_site := Some sid\<rparr> else u3);
                u5 = (if dev_role \<noteq> o_id nb_role
                      then u4\<lparr>p_device_role := Some (o_id nb_role)\<rparr> else u4);
                u6 = (if dev_tenant \<noteq> tid then u5\<lparr>p_tenant := Some (Some tid)\<rparr> else u5);
                u7 = (if dev_type \<noteq> dtid then u6\<lparr>p_device_type := Some dtid\<rparr> else u6);
                oldname = strip_tag (o_name nb_device) (a_asset_tag snipe_device);
                check_name = (if 0 < length (a_name snipe_device)
                              then Some (a_name snipe_device) else None)
            in if oldname \<noteq> check_name
               then (case check_name of
                       None \<Rightarrow> Inr (u7\<lparr>p_name := Some None\<rparr>)
                     | Some cn \<Rightarrow>
                         bind_e (nb_get (\<lambda>d. o_name d = Some cn \<and> o_site d = Some sid
                                             \<and> o_tenant d = Some tid) Device st)
                           (\<lambda>found.
                              Inr (u7\<lparr>p_name :=
                                 Some (Some (case found of
                                     Some _ \<Rightarrow> cn @ '' '' @ a_asset_tag snipe_device
                                   | None \<Rightarrow> a_name snipe_device))\<rparr>)))
               else Inr u7)))))))))"

text \<open>
  In the source the comparisons follow each other and each dereference raises where it
  stands; no write precedes any of them, so the order of the dereferences does not
  show in the result.
\<close>

definition update_device ::
  "syncer \<Rightarrow> nb_obj \<Rightarrow> snipe_asset \<Rightarrow> nb_obj \<Rightarrow> site_val \<Rightarrow> nb_obj option \<Rightarrow> nb_obj option
     \<Rightarrow> bool \<Rightarrow> netbox \<Rightarrow> (py_error + unit) \<times> netbox" where
  "update_device sy nb_device snipe_device nb_role nb_site nb_tenant nb_device_type
       update_custom_field_id st =
     (case device_update_dict nb_device snipe_device nb_role nb_site nb_tenant nb_device_type
             update_custom_field_id st of
        Inl e \<Rightarrow> (Inl e, st)
      | Inr update_dict \<Rightarrow>
          (if 1 < payload_len update_dict
           then (Inr (),
                 nb_update Device
                   [update_dict\<lparr>p_comments :=
                      Some (gen_update_comment sy (o_comments nb_device)
                              (Some (if p_custom_fields update_dict \<noteq> None
                                     then ''Snipe ID'' else ''Values'')))\<rparr>] st)
           else (Inr (), st)))"

text \<open>The third search of \<^verbatim>\<open>__sync_device\<close>: a device of the same name and tenant.\<close>

definition find_name_tenant ::
  "nb_obj list \<Rightarrow> snipe_asset \<Rightarrow> nb_obj option \<Rightarrow> py_error + nb_obj option" where
  "find_name_tenant netbox_devices snipe_asset nb_tenant =
     find_e (\<lambda>item.
        if o_name item = Some (a_name snipe_asset) \<and> o_tenant item \<noteq> None
        then bind_e (obj_id nb_tenant) (\<lambda>tid. Inr (o_tenant item = Some tid))
        else Inr False) netbox_devices"

definition new_device_payload ::
  "syncer \<Rightarrow> string \<Rightarrow> snipe_asset \<Rightarrow> nb_obj \<Rightarrow> int \<Rightarrow> nb_obj option \<Rightarrow> payload" where
  "new_device_payload sy name snipe_asset nb_role dtid nb_tenant =
     empty_payload\<lparr>p_name := Some (Some name),
       p_comments := Some (initial_comments (a_notes snipe_asset)),
       p_description := Some (desc sy),
       p_status := Some ''active'',
       p_asset_tag := Some (a_asset_tag snipe_asset),
       p_role := Some (o_id nb_role),
       p_serial := Some (a_serial snipe_asset),
       p_device_type := Some dtid,
       p_tenant := Some (map_option o_id nb_tenant),
       p_custom_fields := Some (a_id snipe_asset)\<rparr>"

text \<open>
  \<^verbatim>\<open>__sync_device\<close> returns the list \<^verbatim>\<open>netbox_devices\<close>, to which it appends the
  device it creates.
\<close>

definition sync_device ::
  "syncer \<Rightarrow> nb_obj option \<Rightarrow> nb_obj option \<Rightarrow> nb_obj list \<Rightarrow> nb_obj \<Rightarrow> site_val
     \<Rightarrow> snipe_asset \<Rightarrow> netbox \<Rightarrow> (py_error + nb_obj list) \<times> netbox" where
  "sync_device sy nb_device_type nb_tenant netbox_devices nb_role nb_site snipe_asset st =
     (case find (\<lambda>item. o_custom_field item = Some (a_id snipe_asset)) netbox_devices of
        Some device \<Rightarrow>
          (case update_device sy device snipe_asset nb_role nb_site nb_tenant nb_device_type
                  False st of
             (Inl e, st') \<Rightarrow> (Inl e, st')
           | (Inr _, st') \<Rightarrow> (Inr netbox_devices, st'))
      | None \<Rightarrow>
          (case find (\<lambda>item. o_asset_tag item = Some (a_asset_tag snipe_asset))
                  netbox_devices of
             Some device \<Rightarrow>
               (case update_device sy device snipe_asset nb_role nb_site nb_tenant
                       nb_device_type True st of
                  (Inl e, st') \<Rightarrow> (Inl e, st')
                | (Inr _, st') \<Rightarrow> (Inr netbox_devices, st'))
           | None \<Rightarrow>
               (case find_name_tenant netbox_devices snipe_asset nb_tenant of
                  Inl e \<Rightarrow> (Inl e, st)
                | Inr device \<Rightarrow>
                    (let name = (case device of
                                   Some _ \<Rightarrow> a_name snipe_asset @ '' '' @ a_asset_tag snipe_asset
                                 | None \<Rightarrow> a_name snipe_asset)
                     in case obj_id nb_device_type of
                          Inl e \<Rightarrow> (Inl e, st)
                        | Inr dtid \<Rightarrow>
                            (let new_device =
                                   new_device_payload sy name snipe_asset nb_role dtid nb_tenant
                             in case site_has_id nb_site of
                                  Inl e \<Rightarrow> (Inl e, st)
                                | Inr has_id \<Rightarrow>
                                    (if has_id
                                     then (case site_id nb_site of
                                             Inl e \<Rightarrow> (Inl e, st)
                                           | Inr sid \<Rightarrow>
                                               (let (device, st') =
                                                      nb_create Device
                                                        (new_device\<lparr>p_site := Some sid\<rparr>) st
                                                in (Inr (netbox_devices @ [device]), st')))
                                     else (let (device, st') = nb_create Device new_device st
                                           in (Inr (netbox_devices @ [device]), st'))))))))"

text \<open>\<^verbatim>\<open>__get_fallback_site\<close>: the fixed keyword table on the lower-cased company name.\<close>

definition fallback_site_name :: "string option \<Rightarrow> string" where
  "fallback_site_name company_name =
     (case company_name of
        None \<Rightarrow> DEFAULT_SITE_NAME
      | Some n \<Rightarrow>
          (let cn = py_lower n
           in if py_contains ''akademie'' cn then ''547 Akademie''
              else if py_contains ''oper'' cn \<or> py_contains ''medienabt'' cn
                   then ''530 Verwaltung/Oper''
              else if py_contains ''schauspi'' cn then ''529 Schauspielhaus''
              else if py_contains ''ballett'' cn then ''551 Ballettzentrum''
              else DEFAULT_SITE_NAME))"

definition get_fallback_site :: "string option \<Rightarrow> netbox \<Rightarrow> (py_error + nb_obj) \<times> netbox" where
  "get_fallback_site company_name st =
     (case nb_get (\<lambda>s. o_name s = Some (fallback_site_name company_name)) Site st of
        Inl e \<Rightarrow> (Inl e, st)
      | Inr (Some fallback_site) \<Rightarrow> (Inr fallback_site, st)
      | Inr None \<Rightarrow>
          (let (fallback_site, st') =
                 nb_create Site
                   (empty_payload\<lparr>p_name := Some (Some DEFAULT_SITE_NAME),
                      p_slug := Some (slugify DEFAULT_SITE_NAME),
                      p_description := Some ''Default Site for SnipeIT Import'',
                      p_status := Some ''active''\<rparr>) st
           in (Inr fallback_site, st')))"

text \<open>
  The body of the loop of \<^verbatim>\<open>sync_assets_to_devices\<close>, in two parts: the site of the
  asset, and the rest. The location is looked up for \<^verbatim>\<open>location\<close> when it is not null,
  else for \<^verbatim>\<open>rtd_location\<close>.
\<close>

definition asset_location :: "nb_obj list \<Rightarrow> snipe_asset \<Rightarrow> nb_obj option" where
  "asset_location netbox_locations snipe_asset =
     (case a_location snipe_asset of
        Some l \<Rightarrow> get_customfield_from_dict_list netbox_locations (ref_id l)
      | None \<Rightarrow>
          (case a_rtd_location snipe_asset of
             Some l \<Rightarrow> get_customfield_from_dict_list netbox_locations (ref_id l)
           | None \<Rightarrow> None))"

definition asset_site ::
  "nb_obj list \<Rightarrow> snipe_asset \<Rightarrow> netbox \<Rightarrow> (py_error + site_val) \<times> netbox" where
  "asset_site netbox_locations snipe_asset st =
     (case asset_location netbox_locations snipe_asset of
        Some location \<Rightarrow>
          (Inr (case o_site location of None \<Rightarrow> SiteNull | Some i \<Rightarrow> SiteRec i), st)
      | None \<Rightarrow>
          (case a_company snipe_asset of
             Some c \<Rightarrow>
               (case get_fallback_site (Some (ref_name c)) st of
                  (Inl e, st') \<Rightarrow> (Inl e, st')
                | (Inr s, st') \<Rightarrow> (Inr (SiteObj (o_id s)), st'))
           | None \<Rightarrow> (Inr (SiteName DEFAULT_SITE_NAME), st)))"

definition asset_tenant :: "nb_obj list \<Rightarrow> snipe_asset \<Rightarrow> nb_obj option" where
  "asset_tenant netbox_tenants snipe_asset =
     (case a_company snipe_asset of
        None \<Rightarrow> None
      | Some c \<Rightarrow> get_customfield_from_dict_list netbox_tenants (ref_id c))"

text \<open>
  The loop state of \<^verbatim>\<open>sync_assets_to_devices\<close> is the pair of the lsts
  \<^verbatim>\<open>netbox_devices\<close> and \<^verbatim>\<open>netbox_roles\<close>, both extended as records are created.
\<close>

definition sync_asset ::
  "syncer \<Rightarrow> nb_obj list \<Rightarrow> nb_obj list \<Rightarrow> nb_obj list \<Rightarrow> nb_obj list \<times> nb_obj list
     \<Rightarrow> snipe_asset \<Rightarrow> netbox \<Rightarrow> (py_error + nb_obj list \<times> nb_obj list) \<times> netbox" where
  "sync_asset sy netbox_tenants netbox_locations netbox_device_types lsts snipe_asset st =
     (let netbox_devices = fst lsts; netbox_roles = snd lsts;
          nb_device_type =
            get_customfield_from_dict_list netbox_device_types (a_model snipe_asset)
      in case asset_site netbox_locations snipe_asset st of
           (Inl e, st1) \<Rightarrow> (Inl e, st1)
         | (Inr site, st1) \<Rightarrow>
             (let nb_tenant = asset_tenant netbox_tenants snipe_asset;
                  ((netbox_roles', role), st2) =
                     get_role_from_category netbox_roles snipe_asset st1
              in case sync_device sy nb_device_type nb_tenant netbox_devices role site
                        snipe_asset st2 of
                   (Inl e, st3) \<Rightarrow> (Inl e, st3)
                 | (Inr netbox_devices', st3) \<Rightarrow>
                     (Inr (netbox_devices', netbox_roles'), st3)))"

fun sync_asset_list ::
  "syncer \<Rightarrow> nb_obj list \<Rightarrow> nb_obj list \<Rightarrow> nb_obj list \<Rightarrow> nb_obj list \<times> nb_obj list
     \<Rightarrow> snipe_asset list \<Rightarrow> netbox \<Rightarrow> (py_error + unit) \<times> netbox" where
  "sync_asset_list sy tenants locations device_types lsts [] st = (Inr (), st)"
| "sync_asset_list sy tenants locations device_types lsts (a # as) st =
     (case sync_asset sy tenants locations device_types lsts a st of
        (Inl e, st') \<Rightarrow> (Inl e, st')
      | (Inr lsts', st') \<Rightarrow> sync_asset_list sy tenants locations device_types lsts' as st')"

definition sync_assets_to_devices ::
  "syncer \<Rightarrow> snipe_asset list \<Rightarrow> netbox \<Rightarrow> (py_error + unit) \<times> netbox" where
  "sync_assets_to_devices sy snipe_assets st =
     sync_asset_list sy (nb_all Tenant st) (nb_all Location st) (nb_all DeviceType st)
       (nb_all Device st, nb_all DeviceRole st) snipe_assets st"

subsection \<open>Tenants, manufacturers, device types and sites\<close>

text \<open>
  The body of the loop of \<^verbatim>\<open>sync_companies_to_tenants\<close>. \<open>desc0\<close> is the local
  \<^verbatim>\<open>desc\<close> of that method, made from its own clock reading.
\<close>

definition sync_company :: "syncer \<Rightarrow> string \<Rightarrow> nb_obj list \<Rightarrow> snipe_ref \<Rightarrow> netbox \<Rightarrow> netbox" where
  "sync_company sy desc0 netbox_tenants snipe_company st =
     (case find (\<lambda>item. o_custom_field item = Some (ref_id snipe_company)) netbox_tenants of
        None \<Rightarrow>
          (case find (\<lambda>item. o_name item = Some (ref_name snipe_company)) netbox_tenants of
             None \<Rightarrow>
               snd (nb_create Tenant
                 (empty_payload\<lparr>p_name := Some (Some (ref_name snipe_company)),
                    p_slug := Some (slugify (ref_name snipe_company)),
                    p_description := Some desc0,
                    p_custom_fields := Some (ref_id snipe_company)\<rparr>) st)
           | Some present_nb_tenant \<Rightarrow>
               (if allow_linking sy
                then nb_update Tenant
                       [empty_payload\<lparr>p_id := Some (o_id present_nb_tenant),
                          p_description := Some (py_replace ''Imported'' ''Updated'' desc0),
                          p_custom_fields := Some (ref_id snipe_company)\<rparr>] st
                else st))
      | Some present_nb_tenant \<Rightarrow>
          (if o_name present_nb_tenant \<noteq> Some (ref_name snipe_company)
           then (if allow_updates sy
                 then nb_update Tenant
                        [empty_payload\<lparr>p_id := Some (o_id present_nb_tenant),
                           p_name := Some (Some (ref_name snipe_company)),
                           p_slug := Some (slugify (ref_name snipe_company)),
                           p_description := Some (py_replace ''Imported'' ''Updated'' desc0)\<rparr>] st
                 else st)
           else st))"

definition sync_companies_to_tenants ::
  "syncer \<Rightarrow> string \<Rightarrow> snipe_ref list \<Rightarrow> netbox \<Rightarrow> netbox" where
  "sync_companies_to_tenants sy now snipe_companies st =
     foldl (\<lambda>s c. sync_company sy (imported_desc now) (nb_all Tenant st) c s) st snipe_companies"

definition sync_manufacturer :: "syncer \<Rightarrow> nb_obj list \<Rightarrow> snipe_ref \<Rightarrow> netbox \<Rightarrow> netbox" where
  "sync_manufacturer sy netbox_manufacturers snipe_manuf st =
     (case find (\<lambda>item. o_custom_field item = Some (ref_id snipe_manuf)) netbox_manufacturers of
        None \<Rightarrow>
          (case find (\<lambda>item. o_name item = Some (ref_name snipe_manuf)) netbox_manufacturers of
             None \<Rightarrow>
               snd (nb_create Manufacturer
                 (empty_payload\<lparr>p_name := Some (Some (ref_name snipe_manuf)),
                    p_slug := Some (slugify (ref_name snipe_manuf)),
                    p_description := Some (desc sy),
                    p_custom_fields := Some (ref_id snipe_manuf)\<rparr>) st)
           | Some present_nb_manuf \<Rightarrow>
               (if allow_linking sy
                then nb_update Manufacturer
                       [empty_payload\<lparr>p_id := Some (o_id present_nb_manuf),
                          p_custom_fields := Some (ref_id snipe_manuf)\<rparr>] st
                else st))
      | Some present_nb_manuf \<Rightarrow>
          (if o_name present_nb_manuf \<noteq> Some (ref_name snipe_manuf)
           then (if allow_updates sy
                 then nb_update Manufacturer
                        [empty_payload\<lparr>p_id := Some (o_id present_nb_manuf),
                           p_name := Some (Some (ref_name snipe_manuf)),
                           p_slug := Some (slugify (ref_name snipe_manuf))\<rparr>] st
                 else st)
           else st))"

definition sync_manufacturers :: "syncer \<Rightarrow> snipe_ref list \<Rightarrow> netbox \<Rightarrow> netbox" where
  "sync_manufacturers sy snipe_manufacturers st =
     foldl (\<lambda>s m. sync_manufacturer sy (nb_all Manufacturer st) m s) st snipe_manufacturers"

text \<open>
  The body of the loop of \<^verbatim>\<open>sync_models_to_device_types\<close>.
  \<^verbatim>\<open>manuf_by_model.id\<close> raises AttributeError when no manufacturer of the model's
  manufacturer name is in the list; \<^verbatim>\<open>item["manufacturer"]["name"]\<close> raises TypeError
  on a device type without manufacturer.
\<close>

definition manuf_id :: "nb_obj option \<Rightarrow> py_error + int" where
  "manuf_id manuf_by_model =
     (case manuf_by_model of None \<Rightarrow> Inl AttributeError | Some m \<Rightarrow> Inr (o_id m))"

definition find_devtype_by_name ::
  "nb_obj list \<Rightarrow> snipe_model \<Rightarrow> py_error + nb_obj option" where
  "find_devtype_by_name netbox_device_types model =
     find_e (\<lambda>item.
        if o_model item = m_name model
        then (case o_manufacturer item of
                None \<Rightarrow> Inl TypeError
              | Some _ \<Rightarrow>
                  Inr (o_manufacturer_name item = Some (ref_name (m_manufacturer model))))
        else Inr False) netbox_device_types"

text \<open>The dictionary \<^verbatim>\<open>update_obj\<close> of a linked device type, before the final test.\<close>

definition devtype_update_obj ::
  "nb_obj \<Rightarrow> snipe_model \<Rightarrow> nb_obj option \<Rightarrow> py_error + payload" where
  "devtype_update_obj present_nb_devtype model manuf_by_model =
     (let u0 = empty_payload;
          u1 = (if o_model present_nb_devtype \<noteq> m_name model
                then u0\<lparr>p_id := Some (o_id present_nb_devtype),
                       p_model := Some (m_name model),
                       p_slug := Some (slugify (m_name model))\<rparr> else u0);
          u2 = (if o_part_number present_nb_devtype \<noteq> m_model_number model
                then u1\<lparr>p_id := Some (o_id present_nb_devtype),
                       p_part_number := Some (m_model_number model)\<rparr> else u1)
      in bind_e (deref (o_manufacturer present_nb_devtype)) (\<lambda>cur.
         bind_e (manuf_id manuf_by_model) (\<lambda>mid.
           Inr (if cur \<noteq> mid
                then u2\<lparr>p_id := Some (o_id present_nb_devtype), p_manufacturer := Some mid\<rparr>
                else u2))))"

definition sync_model ::
  "syncer \<Rightarrow> nb_obj list \<Rightarrow> nb_obj list \<Rightarrow> snipe_model \<Rightarrow> netbox
     \<Rightarrow> (py_error + unit) \<times> netbox" where
  "sync_model sy netbox_device_types netbox_manufacturers model st =
     (let manuf_by_model =
            find (\<lambda>item. o_name item = Some (ref_name (m_manufacturer model)))
              netbox_manufacturers
      in case find (\<lambda>item. o_custom_field item = Some (m_id model)) netbox_device_types of
           None \<Rightarrow>
             (case find_devtype_by_name netbox_device_types model of
                Inl e \<Rightarrow> (Inl e, st)
              | Inr None \<Rightarrow>
                  (case manuf_id manuf_by_model of
                     Inl e \<Rightarrow> (Inl e, st)
                   | Inr mid \<Rightarrow>
                       (Inr (),
                        snd (nb_create DeviceType
                          (empty_payload\<lparr>p_slug := Some (slugify (m_name model)),
                             p_description := Some (desc sy),
                             p_model := Some (m_name model),
                             p_part_number := Some (m_model_number model),
                             p_manufacturer := Some mid,
                             p_custom_fields := Some (m_id model),
                             p_comments := Some (initial_comments (m_notes model)),
                             p_is_full_depth := Some False,
                             p_u_height := Some 0\<rparr>) st)))
              | Inr (Some present_nb_devtype) \<Rightarrow>
                  (if allow_linking sy
                   then (Inr (),
                         nb_update DeviceType
                           [empty_payload\<lparr>p_id := Some (o_id present_nb_devtype),
                              p_custom_fields := Some (m_id model),
                              p_comments :=
                                Some (gen_update_comment sy (o_comments present_nb_devtype)
                                        (Some ''Snipe ID''))\<rparr>] st)
                   else (Inr (), st)))
         | Some present_nb_devtype \<Rightarrow>
             (case devtype_update_obj present_nb_devtype model manuf_by_model of
                Inl e \<Rightarrow> (Inl e, st)
              | Inr update_obj \<Rightarrow>
                  (if p_id update_obj \<noteq> None
                   then (if allow_updates sy
                         then (Inr (),
                               nb_update DeviceType
                                 [update_obj\<lparr>p_comments :=
                                    Some (gen_update_comment sy
                                            (o_comments present_nb_devtype)
                                            (Some ''Values''))\<rparr>] st)
                         else (Inr (), st))
                   else (Inr (), st))))"

text \<open>A loop whose body may raise: the exception ends the loop, the writes made stay.\<close>

fun for_each ::
  "('a \<Rightarrow> netbox \<Rightarrow> (py_error + unit) \<times> netbox) \<Rightarrow> 'a list \<Rightarrow> netbox
     \<Rightarrow> (py_error + unit) \<times> netbox" where
  "for_each f [] st = (Inr (), st)"
| "for_each f (x # xs) st =
     (case f x st of (Inl e, st') \<Rightarrow> (Inl e, st') | (Inr _, st') \<Rightarrow> for_each f xs st')"

definition sync_models_to_device_types ::
  "syncer \<Rightarrow> snipe_model list \<Rightarrow> netbox \<Rightarrow> (py_error + unit) \<times> netbox" where
  "sync_models_to_device_types sy snipe_models st =
     for_each (sync_model sy (nb_all DeviceType st) (nb_all Manufacturer st)) snipe_models st"

definition sync_top_location :: "syncer \<Rightarrow> nb_obj list \<Rightarrow> snipe_location \<Rightarrow> netbox \<Rightarrow> netbox" where
  "sync_top_location sy netbox_sites location st =
     (case find (\<lambda>item. o_custom_field item = Some (l_id location)) netbox_sites of
        None \<Rightarrow>
          (case find (\<lambda>item. o_name item = Some (l_name location)) netbox_sites of
             None \<Rightarrow>
               snd (nb_create Site
                 (empty_payload\<lparr>p_name := Some (Some (l_name location)),
                    p_slug := Some (slugify (l_name location)),
                    p_description := Some (desc sy),
                    p_status := Some ''active'',
                    p_custom_fields := Some (l_id location)\<rparr>) st)
           | Some present_nb_site \<Rightarrow>
               (if allow_linking sy
                then nb_update Site
                       [empty_payload\<lparr>p_id := Some (o_id present_nb_site),
                          p_comments :=
                            Some (gen_update_comment sy (o_comments present_nb_site)
                                    (Some ''Snipe ID'')),
                          p_custom_fields := Some (l_id location)\<rparr>] st
                else st))
      | Some present_nb_site \<Rightarrow>
          (if o_name present_nb_site \<noteq> Some (l_name location)
           then (if allow_updates sy
                 then nb_update Site
                        [empty_payload\<lparr>p_id := Some (o_id present_nb_site),
                           p_name := Some (Some (l_name location)),
                           p_slug := Some (slugify (l_name location)),
                           p_comments :=
                             Some (gen_update_comment sy (o_comments present_nb_site)
                                     (Some ''Values''))\<rparr>] st
                 else st)
           else st))"

definition sync_top_locations_to_sites ::
  "syncer \<Rightarrow> snipe_location list \<Rightarrow> netbox \<Rightarrow> netbox" where
  "sync_top_locations_to_sites sy locations st =
     foldl (\<lambda>s l. sync_top_location sy (nb_all Site st) l s) st
       (filter (\<lambda>s. l_parent s = None) locations)"

subsection \<open>Locations\<close>

text \<open>
  The \<^verbatim>\<open>while site is None\<close> loop of \<^verbatim>\<open>__sync_location\<close>. It does not end on a cycle
  of parents none of which is linked to a site, so the function is partial: \<open>None\<close> is
  the loop that never ends, \<open>Some None\<close> the logged error followed by \<^verbatim>\<open>return\<close>,
  \<open>Some (Some site)\<close> the site found. Line 576 of the source, a call of
  \<^verbatim>\<open>logging.debug\<close> inside the loop, ends with one closing parenthesis too many; the
  loop is read as it is laid out, the logging calls having no effect on the store.
\<close>

partial_function (option) find_site ::
  "nb_obj list \<Rightarrow> snipe_location list \<Rightarrow> snipe_ref option \<Rightarrow> nb_obj option option" where
  "find_site netbox_sites locations_with_parents parent =
     (case parent of
        None \<Rightarrow> Some None
      | Some p \<Rightarrow>
          (case find (\<lambda>item. o_custom_field item = Some (ref_id p)) netbox_sites of
             Some site \<Rightarrow> Some (Some site)
           | None \<Rightarrow>
               find_site netbox_sites locations_with_parents
                 (case find (\<lambda>item. l_id item = ref_id p) locations_with_parents of
                    Some parent_item \<Rightarrow> l_parent parent_item
                  | None \<Rightarrow> None)))"

text \<open>The search of a location by name within the site found.\<close>

definition find_location_by_name ::
  "nb_obj list \<Rightarrow> snipe_location \<Rightarrow> nb_obj \<Rightarrow> py_error + nb_obj option" where
  "find_location_by_name netbox_locations location site =
     find_e (\<lambda>item.
        if o_name item = Some (l_name location)
        then bind_e (deref (o_site item)) (\<lambda>s. Inr (s = o_id site))
        else Inr False) netbox_locations"

text \<open>\<^verbatim>\<open>__sync_location\<close> from the point where the site is known.\<close>

definition sync_location_in_site ::
  "syncer \<Rightarrow> nb_obj \<Rightarrow> nb_obj list \<Rightarrow> snipe_location \<Rightarrow> netbox
     \<Rightarrow> (py_error + unit) \<times> netbox" where
  "sync_location_in_site sy site netbox_locations location st =
     (case find (\<lambda>item. o_custom_field item = Some (l_id location)) netbox_locations of
        None \<Rightarrow>
          (case find_location_by_name netbox_locations location site of
             Inl e \<Rightarrow> (Inl e, st)
           | Inr None \<Rightarrow>
               (Inr (),
                snd (nb_create Location
                  (empty_payload\<lparr>p_name := Some (Some (l_name location)),
                     p_slug := Some (slugify (l_name location)),
                     p_description := Some (desc sy),
                     p_status := Some ''active'',
                     p_site := Some (o_id site),
                     p_custom_fields := Some (l_id location)\<rparr>) st))
           | Inr (Some present_nb_loc) \<Rightarrow>
               (if allow_linking sy
                then (Inr (),
                      nb_update Location
                        [empty_payload\<lparr>p_id := Some (o_id present_nb_loc),
                           p_custom_fields := Some (l_id location)\<rparr>] st)
                else (Inr (), st)))
      | Some present_nb_loc \<Rightarrow>
          (case (if o_name present_nb_loc \<noteq> Some (l_name location) then Inr True
                 else bind_e (deref (o_site present_nb_loc)) (\<lambda>s. Inr (s \<noteq> o_id site))) of
             Inl e \<Rightarrow> (Inl e, st)
           | Inr changed \<Rightarrow>
               (if changed
                then (if allow_updates sy
                      then (Inr (),
                            nb_update Location
                              [empty_payload\<lparr>p_id := Some (o_id present_nb_loc),
                                 p_name := Some (Some (l_name location)),
                                 p_site := Some (o_id site),
                                 p_slug := Some (slugify (l_name location))\<rparr>] st)
                      else (Inr (), st))
                else (Inr (), st))))"

definition sync_location ::
  "syncer \<Rightarrow> nb_obj list \<Rightarrow> nb_obj list \<Rightarrow> snipe_location list \<Rightarrow> snipe_location \<Rightarrow> netbox
     \<Rightarrow> ((py_error + unit) \<times> netbox) option" where
  "sync_location sy netbox_sites netbox_locations locations_with_parents location st =
     (case find_site netbox_sites locations_with_parents (l_parent location) of
        None \<Rightarrow> None
      | Some None \<Rightarrow> Some (Inr (), st)
      | Some (Some site) \<Rightarrow> Some (sync_location_in_site sy site netbox_locations location st))"

text \<open>
  The loop of \<^verbatim>\<open>__sync_location_relationships\<close>: the list \<^verbatim>\<open>updates\<close>, or the
  exception raised. A failed \<^verbatim>\<open>assert\<close> is AssertionError;
  \<^verbatim>\<open>present_nb_loc["parent"]["id"]\<close> raises TypeError on a location without parent.
\<close>

fun relationship_updates ::
  "syncer \<Rightarrow> nb_obj list \<Rightarrow> snipe_location list \<Rightarrow> payload list \<Rightarrow> py_error + payload list" where
  "relationship_updates sy netbox_locations [] updates = Inr updates"
| "relationship_updates sy netbox_locations (snipe_location # rest) updates =
     (case find (\<lambda>item. o_custom_field item = Some (l_id snipe_location)) netbox_locations of
        None \<Rightarrow> Inl AssertionError
      | Some present_nb_loc \<Rightarrow>
          (case l_parent snipe_location of
             None \<Rightarrow> Inl TypeError
           | Some parent \<Rightarrow>
               (case find (\<lambda>item. o_custom_field item = Some (ref_id parent)) netbox_locations of
                  None \<Rightarrow> Inl AssertionError
                | Some present_nb_parent_loc \<Rightarrow>
                    (case o_parent present_nb_loc of
                       None \<Rightarrow> Inl TypeError
                     | Some cur \<Rightarrow>
                         relationship_updates sy netbox_locations rest
                           (if cur \<noteq> o_id present_nb_parent_loc \<and> allow_updates sy
                            then updates @
                                   [empty_payload\<lparr>p_id := Some (o_id present_nb_loc),
                                      p_parent := Some (o_id present_nb_parent_loc)\<rparr>]
                            else updates)))))"

definition sync_location_relationships ::
  "syncer \<Rightarrow> snipe_location list \<Rightarrow> netbox \<Rightarrow> (py_error + unit) \<times> netbox" where
  "sync_location_relationships sy sub_locations st =
     (case relationship_updates sy (nb_all Location st) sub_locations [] of
        Inl e \<Rightarrow> (Inl e, st)
      | Inr updates \<Rightarrow> (Inr (), nb_update Location updates st))"

fun sync_location_list ::
  "syncer \<Rightarrow> nb_obj list \<Rightarrow> nb_obj list \<Rightarrow> snipe_location list \<Rightarrow> snipe_location list
     \<Rightarrow> netbox \<Rightarrow> ((py_error + unit) \<times> netbox) option" where
  "sync_location_list sy netbox_sites netbox_locations lwp [] st = Some (Inr (), st)"
| "sync_location_list sy netbox_sites netbox_locations lwp (l # ls) st =
     (case sync_location sy netbox_sites netbox_locations lwp l st of
        None \<Rightarrow> None
      | Some (Inl e, st') \<Rightarrow> Some (Inl e, st')
      | Some (Inr _, st') \<Rightarrow> sync_location_list sy netbox_sites netbox_locations lwp ls st')"

text \<open>
  The locations whose parent is not linked to a site are the sub-locations, handed to
  the relationship stage.
\<close>

definition sub_locations_of :: "nb_obj list \<Rightarrow> snipe_location list \<Rightarrow> snipe_location list" where
  "sub_locations_of netbox_sites locations_with_parent =
     filter (\<lambda>l. case l_parent l of
                   None \<Rightarrow> False
                 | Some p \<Rightarrow> find (\<lambda>item. o_custom_field item = Some (ref_id p)) netbox_sites = None)
       locations_with_parent"

definition sync_locations ::
  "syncer \<Rightarrow> snipe_location list \<Rightarrow> netbox \<Rightarrow> ((py_error + unit) \<times> netbox) option" where
  "sync_locations sy locations st =
     (let netbox_locations = nb_all Location st;
          netbox_sites = nb_all Site st;
          snipe_locations_with_parent = filter (\<lambda>s. l_parent s \<noteq> None) locations;
          snipe_sub_locations = sub_locations_of netbox_sites snipe_locations_with_parent
      in case sync_location_list sy netbox_sites netbox_locations snipe_locations_with_parent
                snipe_locations_with_parent st of
           None \<Rightarrow> None
         | Some (Inl e, st') \<Rightarrow> Some (Inl e, st')
         | Some (Inr _, st') \<Rightarrow> Some (sync_location_relationships sy snipe_sub_locations st'))"

subsection \<open>The full pass\<close>

text \<open>
  The data read from SnipeIT, and the stages of \<^verbatim>\<open>main.py\<close> in their order. The
  set-up of the custom field writes no record and is left out. \<open>None\<close> is a pass that
  never ends; an exception ends the pass and leaves the writes made.
\<close>

record snipe_data =
  d_companies :: "snipe_ref list"
  d_manufacturers :: "snipe_ref list"
  d_models :: "snipe_model list"
  d_locations :: "snipe_location list"
  d_assets :: "snipe_asset list"

definition full_pass ::
  "syncer \<Rightarrow> string \<Rightarrow> snipe_data \<Rightarrow> netbox \<Rightarrow> ((py_error + unit) \<times> netbox) option" where
  "full_pass sy now d st =
     (let st1 = sync_companies_to_tenants sy now (d_companies d) st;
          st2 = sync_manufacturers sy (d_manufacturers d) st1
      in case sync_models_to_device_types sy (d_models d) st2 of
           (Inl e, st3) \<Rightarrow> Some (Inl e, st3)
         | (Inr _, st3) \<Rightarrow>
             (let st4 = sync_top_locations_to_sites sy (d_locations d) st3
              in case sync_locations sy (d_locations d) st4 of
                   None \<Rightarrow> None
                 | Some (Inl e, st5) \<Rightarrow> Some (Inl e, st5)
                 | Some (Inr _, st5) \<Rightarrow> Some (sync_assets_to_devices sy (d_assets d) st5)))"

text \<open>The calls a step adds to the log of the store.\<close>

definition new_calls :: "netbox \<Rightarrow> netbox \<Rightarrow> call list" where
  "new_calls st st' = drop (length (nb_calls st)) (nb_calls st')"

section \<open>Example data\<close>

text \<open>Concrete records and stores, on which the theorems below are evaluated.\<close>

definition empty_netbox :: netbox where
  "empty_netbox = \<lparr>nb_table = (\<lambda>_. []), nb_calls = []\<rparr>"

definition blank_obj :: nb_obj where
  "blank_obj =
     \<lparr>o_id = 0, o_name = None, o_slug = [], o_description = [], o_comments = [],
      o_status = [], o_custom_field = None, o_model = [], o_part_number = None,
      o_manufacturer = None, o_manufacturer_name = None, o_site = None, o_parent = None,
      o_asset_tag = None, o_serial = [], o_device_role = None, o_tenant = None,
      o_device_type = None\<rparr>"

text \<open>A syncer started without \<^verbatim>\<open>--allow-update\<close> and \<^verbatim>\<open>--allow-linking\<close>, and one with both.\<close>

definition sy_strict :: syncer where
  "sy_strict = \<lparr>allow_updates = False, allow_linking = False, created_at = ''24-01-01''\<rparr>"

definition sy_open :: syncer where
  "sy_open = \<lparr>allow_updates = True, allow_linking = True, created_at = ''24-01-01''\<rparr>"

text \<open>
  A device linked to asset 7 whose stored serial differs from the asset's, the asset, a
  role of the asset's category name that is not linked yet, and a record of id 1 standing
  for the resolved tenant and device type.
\<close>

definition ex_device :: nb_obj where
  "ex_device =
     blank_obj\<lparr>o_id := 1, o_name := Some ''pc'', o_custom_field := Some 7,
       o_asset_tag := Some ''T7'', o_serial := ''S-old'', o_site := Some 1,
       o_device_role := Some 1, o_tenant := Some 1, o_device_type := Some 1\<rparr>"

definition ex_asset :: snipe_asset where
  "ex_asset =
     \<lparr>a_id = 7, a_name = ''pc'', a_asset_tag = ''T7'', a_serial = ''S-new'', a_notes = None,
      a_category = \<lparr>ref_id = 3, ref_name = ''Laptop''\<rparr>, a_model = 4,
      a_location = None, a_rtd_location = None, a_company = None\<rparr>"

definition ex_role :: nb_obj where
  "ex_role = blank_obj\<lparr>o_id := 1, o_name := Some ''Laptop''\<rparr>"

definition ex_ref :: nb_obj where
  "ex_ref = blank_obj\<lparr>o_id := 1\<rparr>"

definition ex_store :: netbox where
  "ex_store =
     empty_netbox\<lparr>nb_table := (\<lambda>_. [])(Device := [ex_device], DeviceRole := [ex_role])\<rparr>"

text \<open>An asset of the category \<^verbatim>\<open>A-B\<close>, whose hyphen stands at index 1.\<close>

definition asset_AB :: snipe_asset where
  "asset_AB = ex_asset\<lparr>a_category := \<lparr>ref_id = 5, ref_name = ''A-B''\<rparr>\<rparr>"

text \<open>
  The dictionary \<^verbatim>\<open>update_dict\<close> that \<^verbatim>\<open>__update_device\<close> builds for an asset of
  empty name matched by linkage key, stated key by key: the id; each of tag, serial,
  site, role, tenant and device type when it differs from the stored value; the name,
  with the value \<^verbatim>\<open>None\<close>, when the stored name is not null.
\<close>

definition expected_update ::
  "nb_obj \<Rightarrow> snipe_asset \<Rightarrow> nb_obj \<Rightarrow> int \<Rightarrow> int \<Rightarrow> int \<Rightarrow> payload" where
  "expected_update d a role sid tid dtid =
     empty_payload\<lparr>p_id := Some (o_id d),
       p_asset_tag :=
         (if o_asset_tag d \<noteq> Some (a_asset_tag a) then Some (a_asset_tag a) else None),
       p_serial := (if o_serial d \<noteq> a_serial a then Some (a_serial a) else None),
       p_site := (if o_site d \<noteq> Some sid then Some sid else None),
       p_device_role :=
         (if o_device_role d \<noteq> Some (o_id role) then Some (o_id role) else None),
       p_tenant := (if o_tenant d \<noteq> Some tid then Some (Some tid) else None),
       p_device_type := (if o_device_type d \<noteq> Some dtid then Some dtid else None),
       p_name := (if o_name d \<noteq> None then Some None else None)\<rparr>"

text \<open>Asset 7 with an empty name, and an asset with no location, no company and a new id.\<close>

definition asset_noname :: snipe_asset where
  "asset_noname = ex_asset\<lparr>a_name := []\<rparr>"

definition asset_nowhere :: snipe_asset where
  "asset_nowhere = ex_asset\<lparr>a_id := 8, a_asset_tag := ''T8''\<rparr>"

definition ex_devtype :: nb_obj where
  "ex_devtype = blank_obj\<lparr>o_id := 1, o_model := ''XPS'', o_custom_field := Some 4\<rparr>"

text \<open>The role and the device payload that a first pass makes for \<open>asset_nowhere\<close>.\<close>

definition role_laptop :: nb_obj where
  "role_laptop =
     obj_of_payload 1 (empty_payload\<lparr>p_name := Some (Some ''Laptop''), p_slug := Some ''laptop''\<rparr>)"

definition payload_nowhere :: payload where
  "payload_nowhere = new_device_payload sy_strict ''pc'' asset_nowhere role_laptop 1 None"

text \<open>
  Two parts of \<open>device_update_dict\<close>, named for the proofs: the dictionary after the
  comparisons of tag, serial, site, role, tenant and device type, and the treatment of
  the name that follows. Three more assets: one with the tag of the device of
  \<open>ex_store\<close> and a new id, one with its name and a new id and tag, and one that
  matches nothing.
\<close>

definition name_step ::
  "nb_obj \<Rightarrow> snipe_asset \<Rightarrow> int \<Rightarrow> int \<Rightarrow> netbox \<Rightarrow> payload \<Rightarrow> py_error + payload" where
  "name_step nb_device snipe_device sid tid st u7 =
     (let oldname = strip_tag (o_name nb_device) (a_asset_tag snipe_device);
          check_name = (if 0 < length (a_name snipe_device)
                        then Some (a_name snipe_device) else None)
      in if oldname \<noteq> check_name
         then (case check_name of
                 None \<Rightarrow> Inr (u7\<lparr>p_name := Some None\<rparr>)
               | Some cn \<Rightarrow>
                   bind_e (nb_get (\<lambda>d. o_name d = Some cn \<and> o_site d = Some sid
                                       \<and> o_tenant d = Some tid) Device st)
                     (\<lambda>found.
                        Inr (u7\<lparr>p_name :=
                           Some (Some (case found of
                               Some _ \<Rightarrow> cn @ '' '' @ a_asset_tag snipe_device
                             | None \<Rightarrow> a_name snipe_device))\<rparr>)))
         else Inr u7)"

definition diff_fields ::
  "nb_obj \<Rightarrow> snipe_asset \<Rightarrow> nb_obj \<Rightarrow> bool \<Rightarrow> int \<Rightarrow> int \<Rightarrow> int \<Rightarrow> int \<Rightarrow> int \<Rightarrow> int \<Rightarrow> int
     \<Rightarrow> payload" where
  "diff_fields nb_device snipe_device nb_role update_custom_field_id dev_site sid dev_role
       dev_tenant tid dev_type dtid =
     (let u0 = empty_payload\<lparr>p_id := Some (o_id nb_device)\<rparr>;
          u1 = (if update_custom_field_id
                then u0\<lparr>p_custom_fields := Some (a_id snipe_device)\<rparr> else u0);
          u2 = (if o_asset_tag nb_device \<noteq> Some (a_asset_tag snipe_device)
                then u1\<lparr>p_asset_tag := Some (a_asset_tag snipe_device)\<rparr> else u1);
          u3 = (if o_serial nb_device \<noteq> a_serial snipe_device
                then u2\<lparr>p_serial := Some (a_serial snipe_device)\<rparr> else u2);
          u4 = (if dev_site \<noteq> sid then u3\<lparr>p_site := Some sid\<rparr> else u3);
          u5 = (if dev_role \<noteq> o_id nb_role
                then u4\<lparr>p_device_role := Some (o_id nb_role)\<rparr> else u4);
          u6 = (if dev_tenant \<noteq> tid then u5\<lparr>p_tenant := Some (Some tid)\<rparr> else u5)
      in (if dev_type \<noteq> dtid then u6\<lparr>p_device_type := Some dtid\<rparr> else u6))"

definition asset_retag :: snipe_asset where
  "asset_retag = ex_asset\<lparr>a_id := 9\<rparr>"

definition asset_twin :: snipe_asset where
  "asset_twin = ex_asset\<lparr>a_id := 10, a_asset_tag := ''T10''\<rparr>"

definition asset_new :: snipe_asset where
  "asset_new = ex_asset\<lparr>a_id := 11, a_asset_tag := ''T11'', a_name := ''srv''\<rparr>"

text \<open>
  The decision table of the specification (section 4.2), written from its words: the
  outcome of matching, whether the field diff is empty and the two flags give the action.
\<close>

datatype match_result = NotFound | NameMatched nb_obj | Linked nb_obj

datatype action = ACreate | ALink | AUpdate | ASkip

fun decide :: "match_result \<Rightarrow> bool \<Rightarrow> bool \<Rightarrow> bool \<Rightarrow> action" where
  "decide NotFound diff_empty au al = ACreate"
| "decide (NameMatched t) diff_empty au al = (if al then ALink else ASkip)"
| "decide (Linked t) diff_empty au al =
     (if diff_empty then ASkip else if au then AUpdate else ASkip)"

text \<open>
  The matching every stage does, as the code does it: the first record whose linkage key
  is the source id, else the first record that satisfies the stage's test on the name.
\<close>

definition entity_match :: "int \<Rightarrow> (nb_obj \<Rightarrow> bool) \<Rightarrow> nb_obj list \<Rightarrow> match_result" where
  "entity_match key same_name snapshot =
     (case find (\<lambda>item. o_custom_field item = Some key) snapshot of
        Some t \<Rightarrow> Linked t
      | None \<Rightarrow> (case find same_name snapshot of Some t \<Rightarrow> NameMatched t | None \<Rightarrow> NotFound))"

text \<open>The field diff is empty when the record matched by linkage key is unchanged.\<close>

definition diff_empty :: "(nb_obj \<Rightarrow> bool) \<Rightarrow> match_result \<Rightarrow> bool" where
  "diff_empty unchanged m = (case m of Linked t \<Rightarrow> unchanged t | _ \<Rightarrow> True)"

text \<open>
  What each action is in terms of the calls made: Create is one create call carrying the
  source id as linkage key; Link is one update of the record matched by name that carries
  the source id as linkage key; Update is one update of the record matched by linkage key
  that does not carry the linkage key; Skip is no call.
\<close>

fun realises :: "action \<Rightarrow> kind \<Rightarrow> int \<Rightarrow> match_result \<Rightarrow> call list \<Rightarrow> bool" where
  "realises ACreate k key m cs =
     (case cs of [Create k' p] \<Rightarrow> k' = k \<and> p_custom_fields p = Some key | _ \<Rightarrow> False)"
| "realises ALink k key m cs =
     (case m of
        NameMatched t \<Rightarrow>
          (case cs of
             [Update k' [p]] \<Rightarrow> k' = k \<and> p_id p = Some (o_id t) \<and> p_custom_fields p = Some key
           | _ \<Rightarrow> False)
      | _ \<Rightarrow> False)"
| "realises AUpdate k key m cs =
     (case m of
        Linked t \<Rightarrow>
          (case cs of
             [Update k' [p]] \<Rightarrow> k' = k \<and> p_id p = Some (o_id t) \<and> p_custom_fields p = None
           | _ \<Rightarrow> False)
      | _ \<Rightarrow> False)"
| "realises ASkip k key m cs = (cs = [])"

text \<open>The calls of a step are those the table gives for the step's match.\<close>

definition follows_table ::
  "syncer \<Rightarrow> kind \<Rightarrow> int \<Rightarrow> (nb_obj \<Rightarrow> bool) \<Rightarrow> (nb_obj \<Rightarrow> bool) \<Rightarrow> nb_obj list \<Rightarrow> call list \<Rightarrow> bool" where
  "follows_table sy k key same_name unchanged snapshot cs =
     (let m = entity_match key same_name snapshot
      in realises (decide m (diff_empty unchanged m) (allow_updates sy) (allow_linking sy))
           k key m cs)"

text \<open>A manufacturer, a model of it, a site linked to location 1, and two locations.\<close>

definition ex_manuf :: nb_obj where
  "ex_manuf = blank_obj\<lparr>o_id := 1, o_name := Some ''Dell'', o_custom_field := Some 1\<rparr>"

definition ex_model :: snipe_model where
  "ex_model =
     \<lparr>m_id = 4, m_name = ''XPS'', m_model_number = Some ''X1'', m_notes = None,
      m_manufacturer = \<lparr>ref_id = 1, ref_name = ''Dell''\<rparr>\<rparr>"

definition ex_site :: nb_obj where
  "ex_site = blank_obj\<lparr>o_id := 1, o_name := Some ''HQ'', o_custom_field := Some 1\<rparr>"

definition loc_hq :: snipe_location where
  "loc_hq = \<lparr>l_id = 1, l_name = ''HQ'', l_parent = None\<rparr>"

definition loc_room :: snipe_location where
  "loc_room = \<lparr>l_id = 2, l_name = ''Room'', l_parent = Some \<lparr>ref_id = 1, ref_name = ''HQ''\<rparr>\<rparr>"

text \<open>
  The ancestor reached from \<open>p\<close> after \<open>n\<close> steps of the walk of \<^verbatim>\<open>__sync_location\<close>:
  each ancestor left behind is not linked to a site and is found, with a parent, among
  the locations with parents. \<open>chain_ends\<close> says that the walk cannot leave \<open>e\<close>: it is not
  among the locations with parents, or has no parent there.
\<close>

fun climb :: "nb_obj list \<Rightarrow> snipe_location list \<Rightarrow> nat \<Rightarrow> snipe_ref \<Rightarrow> snipe_ref option" where
  "climb netbox_sites lwp 0 p = Some p"
| "climb netbox_sites lwp (Suc n) p =
     (case find (\<lambda>item. o_custom_field item = Some (ref_id p)) netbox_sites of
        Some _ \<Rightarrow> None
      | None \<Rightarrow>
          (case find (\<lambda>item. l_id item = ref_id p) lwp of
             None \<Rightarrow> None
           | Some parent_item \<Rightarrow>
               (case l_parent parent_item of
                  None \<Rightarrow> None
                | Some q \<Rightarrow> climb netbox_sites lwp n q)))"

definition chain_ends :: "snipe_location list \<Rightarrow> snipe_ref \<Rightarrow> bool" where
  "chain_ends lwp e =
     (case find (\<lambda>item. l_id item = ref_id e) lwp of
        None \<Rightarrow> True
      | Some parent_item \<Rightarrow> l_parent parent_item = None)"

definition ref_hq :: snipe_ref where
  "ref_hq = \<lparr>ref_id = 1, ref_name = ''HQ''\<rparr>"

definition ref_room :: snipe_ref where
  "ref_room = \<lparr>ref_id = 2, ref_name = ''Room''\<rparr>"

definition ref_desk :: snipe_ref where
  "ref_desk = \<lparr>ref_id = 3, ref_name = ''Desk''\<rparr>"

definition loc_desk :: snipe_location where
  "loc_desk = \<lparr>l_id = 3, l_name = ''Desk'', l_parent = Some ref_room\<rparr>"

definition loc_shelf :: snipe_location where
  "loc_shelf = \<lparr>l_id = 4, l_name = ''Shelf'', l_parent = Some ref_desk\<rparr>"

text \<open>
  The relationship stage in words. \<open>linked_pair\<close> gives, for a sub-location, the target
  location linked to it and the target location linked to its parent, when both are
  found by linkage key in the locations read; \<open>parent_fixups\<close> is the batch of updates
  \<^verbatim>\<open>{"id": ..., "parent": ...}\<close> for the sub-locations whose target location has another
  parent than the one linked to the source parent, which is empty when updating is not
  allowed.
\<close>

definition linked_pair :: "nb_obj list \<Rightarrow> snipe_location \<Rightarrow> (nb_obj \<times> nb_obj) option" where
  "linked_pair netbox_locations sl =
     (case find (\<lambda>item. o_custom_field item = Some (l_id sl)) netbox_locations of
        None \<Rightarrow> None
      | Some loc \<Rightarrow>
          (case l_parent sl of
             None \<Rightarrow> None
           | Some par \<Rightarrow>
               (case find (\<lambda>item. o_custom_field item = Some (ref_id par)) netbox_locations of
                  None \<Rightarrow> None
                | Some ploc \<Rightarrow> Some (loc, ploc))))"

definition parent_fixups :: "syncer \<Rightarrow> nb_obj list \<Rightarrow> snipe_location list \<Rightarrow> payload list" where
  "parent_fixups sy netbox_locations sub_locations =
     concat (map (\<lambda>sl.
        case linked_pair netbox_locations sl of
          None \<Rightarrow> []
        | Some (loc, ploc) \<Rightarrow>
            if o_parent loc \<noteq> Some (o_id ploc) \<and> allow_updates sy
            then [empty_payload\<lparr>p_id := Some (o_id loc), p_parent := Some (o_id ploc)\<rparr>]
            else []) sub_locations)"

text \<open>
  Target locations for the tree HQ > Room > Desk: Room and Desk are linked, and Desk
  still hangs under another location, 9. In \<open>st_fresh\<close> Desk is as the first pass
  creates it, without parent; in \<open>st_orphan\<close> the target of Room is missing.
\<close>

definition t_room :: nb_obj where
  "t_room = blank_obj\<lparr>o_id := 1, o_name := Some ''Room'', o_custom_field := Some 2,
     o_site := Some 1\<rparr>"

definition t_other :: nb_obj where
  "t_other = blank_obj\<lparr>o_id := 9, o_name := Some ''Store'', o_site := Some 1\<rparr>"

definition t_desk :: nb_obj where
  "t_desk = blank_obj\<lparr>o_id := 2, o_name := Some ''Desk'', o_custom_field := Some 3,
     o_site := Some 1, o_parent := Some 9\<rparr>"

definition st_moved :: netbox where
  "st_moved =
     empty_netbox\<lparr>nb_table := (\<lambda>_. [])(Site := [ex_site], Location := [t_room, t_other, t_desk])\<rparr>"

definition st_fresh :: netbox where
  "st_fresh =
     empty_netbox\<lparr>nb_table := (\<lambda>_. [])(Site := [ex_site],
        Location := [t_room, t_desk\<lparr>o_parent := None\<rparr>])\<rparr>"

definition st_orphan :: netbox where
  "st_orphan =
     empty_netbox\<lparr>nb_table := (\<lambda>_. [])(Site := [ex_site], Location := [t_other, t_desk])\<rparr>"

text \<open>
  A small SnipeIT: one company, one manufacturer, one model, the locations HQ and Room,
  and one asset of the company that stands in Room. The records \<open>rec_...\<close> are those a
  pass makes of it in an empty NetBox, and \<open>st_first\<close> is the NetBox holding them.
\<close>

definition asset_acme :: snipe_asset where
  "asset_acme =
     ex_asset\<lparr>a_rtd_location := Some ref_room,
       a_company := Some \<lparr>ref_id = 5, ref_name = ''Acme''\<rparr>\<rparr>"

definition ex_data :: snipe_data where
  "ex_data =
     \<lparr>d_companies = [\<lparr>ref_id = 5, ref_name = ''Acme''\<rparr>],
      d_manufacturers = [\<lparr>ref_id = 1, ref_name = ''Dell''\<rparr>],
      d_models = [ex_model],
      d_locations = [loc_hq, loc_room],
      d_assets = [asset_acme]\<rparr>"

definition rec_tenant :: nb_obj where
  "rec_tenant = blank_obj\<lparr>o_id := 1, o_name := Some ''Acme'', o_slug := ''acme'',
     o_description := ''Imported from SnipeIT now'', o_custom_field := Some 5\<rparr>"

definition rec_manuf :: nb_obj where
  "rec_manuf = blank_obj\<lparr>o_id := 1, o_name := Some ''Dell'', o_slug := ''dell'',
     o_description := ''Imported from SnipeIT 24-01-01'', o_custom_field := Some 1\<rparr>"

definition rec_devtype :: nb_obj where
  "rec_devtype = blank_obj\<lparr>o_id := 1, o_slug := ''xps'',
     o_description := ''Imported from SnipeIT 24-01-01'',
     o_comments := initial_comments None, o_custom_field := Some 4, o_model := ''XPS'',
     o_part_number := Some ''X1'', o_manufacturer := Some 1\<rparr>"

definition rec_site :: nb_obj where
  "rec_site = blank_obj\<lparr>o_id := 1, o_name := Some ''HQ'', o_slug := ''hq'',
     o_description := ''Imported from SnipeIT 24-01-01'', o_status := ''active'',
     o_custom_field := Some 1\<rparr>"

definition rec_location :: nb_obj where
  "rec_location = blank_obj\<lparr>o_id := 1, o_name := Some ''Room'', o_slug := ''room'',
     o_description := ''Imported from SnipeIT 24-01-01'', o_status := ''active'',
     o_custom_field := Some 2, o_site := Some 1\<rparr>"

definition rec_role :: nb_obj where
  "rec_role = blank_obj\<lparr>o_id := 1, o_name := Some ''Laptop'', o_slug := ''laptop''\<rparr>"

definition rec_device :: nb_obj where
  "rec_device = blank_obj\<lparr>o_id := 1, o_name := Some ''pc'',
     o_description := ''Imported from SnipeIT 24-01-01'',
     o_comments := initial_comments None, o_status := ''active'', o_custom_field := Some 7,
     o_site := Some 1, o_asset_tag := Some ''T7'', o_serial := ''S-new'',
     o_device_role := Some 1, o_tenant := Some 1, o_device_type := Some 1\<rparr>"

definition all_kinds :: "kind list" where
  "all_kinds = [Tenant, Manufacturer, DeviceType, Site, Location, DeviceRole, Device]"

definition st_first :: netbox where
  "st_first =
     empty_netbox\<lparr>nb_table := (\<lambda>_. [])(Tenant := [rec_tenant], Manufacturer := [rec_manuf],
        DeviceType := [rec_devtype], Site := [rec_site], Location := [rec_location],
        DeviceRole := [rec_role], Device := [rec_device])\<rparr>"

text \<open>
  The tree A > B > C of the specification, here HQ > Room > Desk, as the only source
  data, and the NetBox a first pass leaves of it: the site of HQ and the locations of
  Room and Desk, both in that site, both linked, neither with a parent.
\<close>

definition ex_tree :: snipe_data where
  "ex_tree =
     \<lparr>d_companies = [], d_manufacturers = [], d_models = [],
      d_locations = [loc_hq, loc_room, loc_desk], d_assets = []\<rparr>"

definition rec_desk :: nb_obj where
  "rec_desk = blank_obj\<lparr>o_id := 2, o_name := Some ''Desk'', o_slug := ''desk'',
     o_description := ''Imported from SnipeIT 24-01-01'', o_status := ''active'',
     o_custom_field := Some 3, o_site := Some 1\<rparr>"

definition st_tree :: netbox where
  "st_tree =
     empty_netbox\<lparr>nb_table := (\<lambda>_. [])(Site := [rec_site],
        Location := [rec_location, rec_desk])\<rparr>"

text \<open>
  An asset without company that stands in Room, and a NetBox that holds the site, the
  location, the device type and the linked role it needs. In \<open>st_tagged\<close> a device
  entered by hand carries the asset's tag and no linkage key; \<open>st_bare\<close> has no device,
  and \<open>st_made\<close> holds the device that a pass creates for the asset in \<open>st_bare\<close>.
\<close>

definition asset_room :: snipe_asset where
  "asset_room = ex_asset\<lparr>a_rtd_location := Some ref_room\<rparr>"

definition dev_tagged :: nb_obj where
  "dev_tagged =
     blank_obj\<lparr>o_id := 1, o_name := Some ''pc'', o_status := ''active'',
       o_asset_tag := Some ''T7'', o_serial := ''S-old'', o_site := Some 1,
       o_device_role := Some 1, o_device_type := Some 1\<rparr>"

definition dev_made :: nb_obj where
  "dev_made = rec_device\<lparr>o_tenant := None\<rparr>"

definition role_linked :: nb_obj where
  "role_linked = rec_role\<lparr>o_custom_field := Some 3\<rparr>"

definition st_bare :: netbox where
  "st_bare =
     empty_netbox\<lparr>nb_table := (\<lambda>_. [])(DeviceType := [rec_devtype], Site := [rec_site],
        Location := [rec_location], DeviceRole := [role_linked])\<rparr>"

definition st_tagged :: netbox where
  "st_tagged =
     empty_netbox\<lparr>nb_table := (\<lambda>_. [])(DeviceType := [rec_devtype], Site := [rec_site],
        Location := [rec_location], DeviceRole := [role_linked], Device := [dev_tagged])\<rparr>"

definition st_made :: netbox where
  "st_made =
     empty_netbox\<lparr>nb_table := (\<lambda>_. [])(DeviceType := [rec_devtype], Site := [rec_site],
        Location := [rec_location], DeviceRole := [role_linked], Device := [dev_made])\<rparr>"

text \<open>
  A NetBox whose manufacturer is linked to the SnipeIT manufacturer 1 under another
  name, and the source data of that manufacturer and one model of it.
\<close>

definition manuf_inc :: nb_obj where
  "manuf_inc = blank_obj\<lparr>o_id := 1, o_name := Some ''Dell Inc.'', o_slug := ''dell-inc'',
     o_custom_field := Some 1\<rparr>"

definition st_dell :: netbox where
  "st_dell = empty_netbox\<lparr>nb_table := (\<lambda>_. [])(Manufacturer := [manuf_inc])\<rparr>"

definition data_dell :: snipe_data where
  "data_dell =
     \<lparr>d_companies = [], d_manufacturers = [\<lparr>ref_id = 1, ref_name = ''Dell''\<rparr>],
      d_models = [ex_model], d_locations = [], d_assets = []\<rparr>"

section \<open>Basic lemmas\<close>

lemma bind_e_simps [simp]:
  "bind_e (Inl e) f = Inl e"
  "bind_e (Inr x) f = f x"
  by (simp_all add: bind_e_def)

lemma deref_simps [simp]:
  "deref None = Inl TypeError"
  "deref (Some v) = Inr v"
  by (simp_all add: deref_def)

lemmas ex_defs = empty_netbox_def blank_obj_def sy_strict_def sy_open_def ex_device_def
  ex_asset_def ex_role_def ex_ref_def ex_store_def asset_AB_def

lemmas string_defs = py_find_def py_rfind_def py_replace_def py_contains_def py_strip_def
  py_lower_def lower_char_def is_space_def is_word_char_def is_sep_def strip_chars_def
  slugify_def CRLF_def py_str_def

lemmas store_defs = nb_create_def nb_update_def apply_update_def apply_payload_def
  obj_of_payload_def fresh_id_def or_else_def nb_all_def resolve_def nb_get_def new_calls_def

lemmas device_defs = sync_device_def update_device_def device_update_dict_def strip_tag_def
  site_id_def site_has_id_def obj_id_def payload_len_def opt_len_def empty_payload_def
  gen_update_comment_def desc_def imported_desc_def initial_comments_def
  get_role_from_category_def role_name_of_category_def get_customfield_from_dict_list_def
  find_name_tenant_def new_device_payload_def

section \<open>The claims\<close>

text \<open>
  C1 (flag gating). The claim: on a match by linkage key nothing of the target is
  written when \<^verbatim>\<open>allow_updates\<close> is false, and a target matched by name only is left
  untouched when \<^verbatim>\<open>allow_linking\<close> is false. The stages of tenants, manufacturers,
  device types, sites and locations test the two flags; \<^verbatim>\<open>__update_device\<close> and
  \<^verbatim>\<open>__get_role_from_category\<close> test neither. With both flags false, the device linked
  to asset 7 has its serial overwritten by a logged update call, and the role found by
  name only has its linkage key written.
\<close>

theorem C1_device_and_role_writes_ignore_flags:
  "\<not> allow_updates sy_strict \<and> \<not> allow_linking sy_strict
   \<and> find (\<lambda>item. o_custom_field item = Some (a_id ex_asset)) [ex_device] = Some ex_device
   \<and> map o_serial (nb_table ex_store Device) = [''S-old'']
   \<and> map o_serial
        (nb_table (snd (sync_device sy_strict (Some ex_ref) (Some ex_ref) [ex_device] ex_role
                          (SiteRec 1) ex_asset ex_store)) Device) = [''S-new'']
   \<and> length (new_calls ex_store
        (snd (sync_device sy_strict (Some ex_ref) (Some ex_ref) [ex_device] ex_role
                (SiteRec 1) ex_asset ex_store))) = 1
   \<and> map o_custom_field (nb_table ex_store DeviceRole) = [None]
   \<and> map o_custom_field
        (nb_table (snd (get_role_from_category [ex_role] ex_asset ex_store)) DeviceRole)
      = [Some 3]"
  by (simp add: ex_defs device_defs store_defs string_defs Let_def)

text \<open>
  C7 (role resolution). The claim, like the comment in \<^verbatim>\<open>__get_role_from_category\<close>,
  has the category name truncated at its first hyphen whenever it holds one. The code
  truncates only when \<^verbatim>\<open>find("-") > 1\<close>: for the category name \<^verbatim>\<open>A-B\<close> the hyphen is
  found at index 1, the name is kept whole, and the role created is named \<^verbatim>\<open>A-B\<close>.
\<close>

theorem C7_hyphen_at_index_one_not_truncated:
  "py_find ''-'' ''A-B'' = 1
   \<and> role_name_of_category ''A-B'' = ''A-B''
   \<and> nb_calls (snd (get_role_from_category [] asset_AB empty_netbox))
      = [Create DeviceRole
           (empty_payload\<lparr>p_name := Some (Some ''A-B''), p_slug := Some ''a-b''\<rparr>)]"
  by (simp add: ex_defs device_defs store_defs string_defs Let_def)

subsection \<open>The calls of a step\<close>

lemma nb_create_calls: "nb_calls (snd (nb_create k p st)) = nb_calls st @ [Create k p]"
  by (simp add: nb_create_def Let_def)

lemma nb_update_calls: "nb_calls (nb_update k ps st) = nb_calls st @ [Update k ps]"
  by (simp add: nb_update_def)

lemma new_calls_same [simp]: "new_calls st st = []"
  by (simp add: new_calls_def)

lemma new_calls_create [simp]: "new_calls st (snd (nb_create k p st)) = [Create k p]"
  by (simp add: new_calls_def nb_create_calls)

lemma new_calls_update [simp]: "new_calls st (nb_update k ps st) = [Update k ps]"
  by (simp add: new_calls_def nb_update_calls)

lemma new_calls_append: "nb_calls st' = nb_calls st @ cs \<Longrightarrow> new_calls st st' = cs"
  by (simp add: new_calls_def)

lemma bind_e_Inr_iff: "bind_e m f = Inr y \<longleftrightarrow> (\<exists>x. m = Inr x \<and> f x = Inr y)"
  by (cases m) simp_all

lemma deref_Inr_iff: "deref x = Inr v \<longleftrightarrow> x = Some v"
  by (cases x) simp_all

subsection \<open>The tag suffix\<close>

text \<open>
  \<open>py_rfind_at\<close> returns \<open>-1\<close> or the offset of an occurrence, and no occurrence lies
  above the one it returns.
\<close>

lemma py_rfind_at_range:
  "py_rfind_at sub s i = - 1
   \<or> (\<exists>k. k + length sub \<le> length s \<and> py_rfind_at sub s i = int (i + k))"
proof (induction s arbitrary: i)
  case Nil
  then show ?case by simp
next
  case (Cons c cs)
  show ?case
  proof (cases "py_rfind_at sub cs (Suc i) = - 1")
    case True
    then show ?thesis
      by (auto simp: Let_def dest: prefix_length_le intro: exI[of _ 0])
  next
    case False
    with Cons.IH[of "Suc i"] obtain k where
      "k + length sub \<le> length cs" "py_rfind_at sub cs (Suc i) = int (Suc i + k)" by auto
    then show ?thesis
      using False by (auto simp: Let_def intro!: exI[of _ "Suc k"])
  qed
qed

lemma py_rfind_at_lower:
  "prefix sub (drop k s) \<Longrightarrow> k \<le> length s \<Longrightarrow> int (i + k) \<le> py_rfind_at sub s i"
proof (induction s arbitrary: i k)
  case Nil
  then show ?case by simp
next
  case (Cons c cs)
  show ?case
  proof (cases k)
    case 0
    with Cons.prems have p: "prefix sub (c # cs)" by simp
    from py_rfind_at_range[of sub cs "Suc i"] show ?thesis
      using 0 p by (auto simp: Let_def)
  next
    case (Suc k')
    with Cons.prems have "prefix sub (drop k' cs)" "k' \<le> length cs" by simp_all
    from Cons.IH[OF this, of "Suc i"] show ?thesis
      using Suc by (auto simp: Let_def)
  qed
qed

lemma py_rfind_appended: "py_rfind tag (base @ '' '' @ tag) = int (length base + 1)"
proof -
  let ?s = "base @ '' '' @ tag"
  have "prefix tag (drop (length base + 1) ?s)" by simp
  then have lo: "int (length base + 1) \<le> py_rfind tag ?s"
    unfolding py_rfind_def using py_rfind_at_lower[of tag "length base + 1" ?s 0] by simp
  from py_rfind_at_range[of tag ?s 0] lo show ?thesis
    unfolding py_rfind_def by auto
qed

lemma strip_tag_appended:
  "strip_tag (Some (base @ '' '' @ tag)) tag
   = (if base = [] then Some ('' '' @ tag) else Some base)"
  by (simp add: strip_tag_def py_rfind_appended del: append.simps)

lemma strip_tag_None_iff: "strip_tag n tag = None \<longleftrightarrow> n = None"
  by (simp add: strip_tag_def split: option.splits)

lemma update_dict_empty_name:
  assumes "a_name a = []"
      and "device_update_dict d a role site tn dt False st = Inr u"
  shows "\<exists>sid tid dtid. site_id site = Inr sid \<and> obj_id tn = Inr tid \<and> obj_id dt = Inr dtid
           \<and> u = expected_update d a role sid tid dtid"
  using assms
  unfolding device_update_dict_def Let_def bind_e_Inr_iff deref_Inr_iff
  apply clarify
  subgoal for dev_site sid dev_role dev_tenant tid dev_type dtid
    apply (rule exI[of _ sid], rule exI[of _ tid], rule exI[of _ dtid])
    apply (simp add: expected_update_def empty_payload_def strip_tag_None_iff split: if_splits)
    done
  done

text \<open>
  C9 (update payload, empty source name). The claim: for an asset of empty name matched
  by linkage key the payload holds only those of tag, serial, site, role, tenant and
  device type that differ, and the name is never set from the empty name. The code
  compares the stored name with \<^verbatim>\<open>None\<close> and, when the stored name is not null, puts
  the key \<^verbatim>\<open>name\<close> with the value \<^verbatim>\<open>None\<close> into the payload (its comment: NetBox allows
  several devices without name): for the device named \<^verbatim>\<open>pc\<close> and asset 7 with an empty
  name, the payload holds \<^verbatim>\<open>name\<close> and the stored name is cleared.
\<close>

theorem C9_empty_name_clears_stored_name:
  "a_name asset_noname = []
   \<and> find (\<lambda>item. o_custom_field item = Some (a_id asset_noname)) [ex_device] = Some ex_device
   \<and> device_update_dict ex_device asset_noname ex_role (SiteRec 1) (Some ex_ref) (Some ex_ref)
        False ex_store
      = Inr (empty_payload\<lparr>p_id := Some 1, p_serial := Some ''S-new'', p_name := Some None\<rparr>)
   \<and> map o_name (nb_table ex_store Device) = [Some ''pc'']
   \<and> map o_name
        (nb_table (snd (sync_device sy_open (Some ex_ref) (Some ex_ref) [ex_device] ex_role
                          (SiteRec 1) asset_noname ex_store)) Device) = [None]"
  by (simp add: asset_noname_def ex_defs device_defs store_defs string_defs Let_def)

text \<open>
  C9 as amended. For an asset of empty name matched by linkage key, whenever
  \<^verbatim>\<open>__update_device\<close> builds its dictionary without raising, the dictionary is
  \<open>expected_update\<close>: the id, each of tag, serial, site, role, tenant and device type
  exactly when it differs from the stored value, never the linkage key, and the key
  \<^verbatim>\<open>name\<close> exactly when the stored name is not null, always with the value \<^verbatim>\<open>None\<close>. The
  update call is made exactly when a key besides the id is present, and adds the audit
  comment. For an empty source name the comparison of names only asks whether the stored
  name is null, which stripping the tag does not change; a tag appended to a non-empty
  name is stripped, one appended to an empty name is not.
\<close>

theorem C9_update_payload_empty_name:
  assumes "a_name a = []"
      and "device_update_dict d a role site tn dt False st = Inr u"
  shows "(\<exists>sid tid dtid. site_id site = Inr sid \<and> obj_id tn = Inr tid \<and> obj_id dt = Inr dtid
            \<and> u = expected_update d a role sid tid dtid)
         \<and> p_custom_fields u = None
         \<and> (p_name u = None \<or> p_name u = Some None)
         \<and> (p_name u = None \<longleftrightarrow> o_name d = None)
         \<and> new_calls st (snd (update_device sy d a role site tn dt False st))
            = (if 1 < payload_len u
               then [Update Device
                       [u\<lparr>p_comments :=
                            Some (gen_update_comment sy (o_comments d) (Some ''Values''))\<rparr>]]
               else [])
         \<and> (strip_tag (o_name d) (a_asset_tag a) = None \<longleftrightarrow> o_name d = None)
         \<and> (\<forall>base. strip_tag (Some (base @ '' '' @ a_asset_tag a)) (a_asset_tag a)
                     = (if base = [] then Some ('' '' @ a_asset_tag a) else Some base))"
proof -
  from update_dict_empty_name[OF assms] obtain sid tid dtid where
    e: "site_id site = Inr sid" "obj_id tn = Inr tid" "obj_id dt = Inr dtid"
       "u = expected_update d a role sid tid dtid" by blast
  have 1: "p_custom_fields u = None" "p_name u = None \<or> p_name u = Some None"
          "p_name u = None \<longleftrightarrow> o_name d = None"
    using e(4) by (simp_all add: expected_update_def empty_payload_def)
  have 2: "new_calls st (snd (update_device sy d a role site tn dt False st))
            = (if 1 < payload_len u
               then [Update Device
                       [u\<lparr>p_comments :=
                            Some (gen_update_comment sy (o_comments d) (Some ''Values''))\<rparr>]]
               else [])"
    using assms(2) 1(1) by (simp add: update_device_def)
  have 3: "\<forall>base. strip_tag (Some (base @ '' '' @ a_asset_tag a)) (a_asset_tag a)
                  = (if base = [] then Some ('' '' @ a_asset_tag a) else Some base)"
    by (simp add: strip_tag_appended del: append.simps)
  from e 1 2 3 strip_tag_None_iff show ?thesis by blast
qed

theorem C9_update_payload_empty_name_witness:
  "(\<exists>sid tid dtid. site_id (SiteRec 1) = Inr sid \<and> obj_id (Some ex_ref) = Inr tid
       \<and> obj_id (Some ex_ref) = Inr dtid
       \<and> empty_payload\<lparr>p_id := Some 1, p_serial := Some ''S-new'', p_name := Some None\<rparr>
          = expected_update ex_device asset_noname ex_role sid tid dtid)
   \<and> new_calls ex_store
        (snd (update_device sy_open ex_device asset_noname ex_role (SiteRec 1) (Some ex_ref)
                (Some ex_ref) False ex_store))
      = [Update Device
           [empty_payload\<lparr>p_id := Some 1, p_serial := Some ''S-new'', p_name := Some None,
              p_comments := Some (gen_update_comment sy_open [] (Some ''Values''))\<rparr>]]"
proof -
  have n: "a_name asset_noname = []" by (simp add: asset_noname_def)
  have d: "device_update_dict ex_device asset_noname ex_role (SiteRec 1) (Some ex_ref)
             (Some ex_ref) False ex_store
           = Inr (empty_payload\<lparr>p_id := Some 1, p_serial := Some ''S-new'', p_name := Some None\<rparr>)"
    by (simp add: asset_noname_def ex_defs device_defs store_defs string_defs Let_def)
  have l: "payload_len (empty_payload\<lparr>p_id := Some 1, p_serial := Some ''S-new'',
             p_name := Some None\<rparr>) = 3"
    by (simp add: payload_len_def opt_len_def empty_payload_def)
  have c: "o_comments ex_device = []" by (simp add: ex_defs)
  from C9_update_payload_empty_name[OF n d, of sy_open] l c show ?thesis
    by simp
qed

subsection \<open>Devices without a site\<close>

lemma site_has_id_default: "site_has_id (SiteName DEFAULT_SITE_NAME) = Inr False"
  by (simp add: site_has_id_def DEFAULT_SITE_NAME_def py_contains_def py_find_def)

lemma get_role_calls_ext:
  "\<exists>cs. nb_calls (snd (get_role_from_category roles a st)) = nb_calls st @ cs
        \<and> (\<forall>p. Create Device p \<notin> set cs)"
  by (auto simp: get_role_from_category_def Let_def split_beta nb_create_calls nb_update_calls
      split: option.splits)

lemma update_device_calls_ext:
  "\<exists>cs. nb_calls (snd (update_device sy d a role site tn dt flag st)) = nb_calls st @ cs
        \<and> (\<forall>k p. Create k p \<notin> set cs)"
  by (auto simp: update_device_def nb_update_calls split: sum.splits if_splits)

lemma sync_device_default_site:
  "\<exists>cs. nb_calls (snd (sync_device sy dt tn devs role (SiteName DEFAULT_SITE_NAME) a st))
          = nb_calls st @ cs
       \<and> (\<forall>p. Create Device p \<in> set cs \<longrightarrow> p_site p = None)
       \<and> (\<forall>devs'. fst (sync_device sy dt tn devs role (SiteName DEFAULT_SITE_NAME) a st)
                     = Inr devs' \<longrightarrow>
              devs' = devs \<or> (\<exists>d. devs' = devs @ [d] \<and> o_site d = None))"
proof (cases "find (\<lambda>item. o_custom_field item = Some (a_id a)) devs")
  case (Some d)
  from update_device_calls_ext[of sy d a role "SiteName DEFAULT_SITE_NAME" tn dt False st]
  show ?thesis using Some
    by (auto simp: sync_device_def split_beta split: sum.splits)
next
  case None
  note k = None
  show ?thesis
  proof (cases "find (\<lambda>item. o_asset_tag item = Some (a_asset_tag a)) devs")
    case (Some d)
    from update_device_calls_ext[of sy d a role "SiteName DEFAULT_SITE_NAME" tn dt True st]
    show ?thesis using Some k
      by (auto simp: sync_device_def split_beta split: sum.splits)
  next
    case None
    then show ?thesis using k
      by (auto simp: sync_device_def site_has_id_default Let_def split_beta nb_create_calls
          nb_create_def obj_of_payload_def new_device_payload_def empty_payload_def
          split: sum.splits)
  qed
qed

lemma asset_location_unresolved:
  assumes "\<forall>l. a_location a = Some l \<longrightarrow> get_customfield_from_dict_list locs (ref_id l) = None"
      and "\<forall>l. a_rtd_location a = Some l \<longrightarrow> get_customfield_from_dict_list locs (ref_id l) = None"
  shows "asset_location locs a = None"
  using assms by (auto simp: asset_location_def split: option.splits)

text \<open>
  C10 (default site as a bare string). For an asset whose \<^verbatim>\<open>location\<close> and
  \<^verbatim>\<open>rtd_location\<close> are each null or not linked to a NetBox location, and which has no
  company, the site handed to \<^verbatim>\<open>__sync_device\<close> is the string \<^verbatim>\<open>DEFAULT_SITE_NAME\<close>
  (and nothing is written to find it); every device that the loop body creates for it is
  created by a payload without the key \<^verbatim>\<open>site\<close>, and the record appended to
  \<^verbatim>\<open>netbox_devices\<close> has no site.
\<close>

theorem C10_default_site_name_and_no_site_on_create:
  assumes "\<forall>l. a_location a = Some l \<longrightarrow> get_customfield_from_dict_list locs (ref_id l) = None"
      and "\<forall>l. a_rtd_location a = Some l \<longrightarrow> get_customfield_from_dict_list locs (ref_id l) = None"
      and "a_company a = None"
  shows "asset_site locs a st = (Inr (SiteName DEFAULT_SITE_NAME), st)
         \<and> (\<forall>p. Create Device p
                  \<in> set (new_calls st (snd (sync_asset sy tenants locs dts lsts a st)))
                \<longrightarrow> p_site p = None)
         \<and> (\<forall>devs roles. fst (sync_asset sy tenants locs dts lsts a st) = Inr (devs, roles)
                \<longrightarrow> devs = fst lsts \<or> (\<exists>d. devs = fst lsts @ [d] \<and> o_site d = None))"
proof -
  have s: "asset_site locs a st = (Inr (SiteName DEFAULT_SITE_NAME), st)"
    using asset_location_unresolved[OF assms(1,2)] assms(3) by (simp add: asset_site_def)
  define g where "g = get_role_from_category (snd lsts) a st"
  define nb_device_type where "nb_device_type = get_customfield_from_dict_list dts (a_model a)"
  define x where
    "x = sync_device sy nb_device_type (asset_tenant tenants a) (fst lsts) (snd (fst g))
           (SiteName DEFAULT_SITE_NAME) a (snd g)"
  have sa: "sync_asset sy tenants locs dts lsts a st
            = (case x of (Inl e, st3) \<Rightarrow> (Inl e, st3)
               | (Inr devs', st3) \<Rightarrow> (Inr (devs', fst (fst g)), st3))"
    unfolding g_def x_def nb_device_type_def
    by (simp add: sync_asset_def s Let_def split_beta)
  from get_role_calls_ext[of "snd lsts" a st] obtain cs1 where
    c1: "nb_calls (snd g) = nb_calls st @ cs1" "\<forall>p. Create Device p \<notin> set cs1"
    unfolding g_def by blast
  from sync_device_default_site[of sy nb_device_type "asset_tenant tenants a" "fst lsts"
      "snd (fst g)" a "snd g"]
  obtain cs2 where
    c2: "nb_calls (snd x) = nb_calls (snd g) @ cs2"
        "\<forall>p. Create Device p \<in> set cs2 \<longrightarrow> p_site p = None"
        "\<forall>devs'. fst x = Inr devs' \<longrightarrow>
            devs' = fst lsts \<or> (\<exists>d. devs' = fst lsts @ [d] \<and> o_site d = None)"
    unfolding x_def by blast
  have sn: "snd (sync_asset sy tenants locs dts lsts a st) = snd x"
    unfolding sa by (cases x) (auto split: sum.splits)
  have n: "new_calls st (snd (sync_asset sy tenants locs dts lsts a st)) = cs1 @ cs2"
    unfolding sn using c1(1) c2(1) by (simp add: new_calls_def)
  have f: "\<forall>devs roles. fst (sync_asset sy tenants locs dts lsts a st) = Inr (devs, roles)
             \<longrightarrow> fst x = Inr devs"
    unfolding sa by (cases x) (auto split: sum.splits)
  show ?thesis using s n c1(2) c2(2,3) f by auto
qed

lemmas asset_defs = sync_asset_def asset_site_def asset_location_def asset_tenant_def
  get_fallback_site_def fallback_site_name_def DEFAULT_SITE_NAME_def

theorem C10_default_site_name_and_no_site_on_create_witness:
  "asset_site [] asset_nowhere empty_netbox = (Inr (SiteName DEFAULT_SITE_NAME), empty_netbox)
   \<and> new_calls empty_netbox
        (snd (sync_asset sy_strict [] [] [ex_devtype] ([], []) asset_nowhere empty_netbox))
      = [Create DeviceRole
           (empty_payload\<lparr>p_name := Some (Some ''Laptop''), p_slug := Some ''laptop''\<rparr>),
         Create Device payload_nowhere]
   \<and> p_site payload_nowhere = None"
proof -
  have h1: "\<forall>l. a_location asset_nowhere = Some l
              \<longrightarrow> get_customfield_from_dict_list [] (ref_id l) = None"
    and h2: "\<forall>l. a_rtd_location asset_nowhere = Some l
              \<longrightarrow> get_customfield_from_dict_list [] (ref_id l) = None"
    and h3: "a_company asset_nowhere = None"
    by (simp_all add: asset_nowhere_def ex_defs)
  have m: "new_calls empty_netbox
             (snd (sync_asset sy_strict [] [] [ex_devtype] ([], []) asset_nowhere empty_netbox))
           = [Create DeviceRole
                (empty_payload\<lparr>p_name := Some (Some ''Laptop''), p_slug := Some ''laptop''\<rparr>),
              Create Device payload_nowhere]"
    by (simp add: payload_nowhere_def role_laptop_def asset_nowhere_def ex_devtype_def ex_defs
        asset_defs device_defs store_defs string_defs Let_def)
  from C10_default_site_name_and_no_site_on_create[OF h1 h2 h3,
      where st = empty_netbox and sy = sy_strict and tenants = "[]" and dts = "[ex_devtype]"
      and lsts = "([], [])"] m
  show ?thesis by simp
qed

subsection \<open>Device matching\<close>

lemma device_update_dict_alt:
  "device_update_dict d a role site tn dt flag st =
     bind_e (deref (o_site d)) (\<lambda>dev_site.
     bind_e (site_id site) (\<lambda>sid.
     bind_e (deref (o_device_role d)) (\<lambda>dev_role.
     bind_e (deref (o_tenant d)) (\<lambda>dev_tenant.
     bind_e (obj_id tn) (\<lambda>tid.
     bind_e (deref (o_device_type d)) (\<lambda>dev_type.
     bind_e (obj_id dt) (\<lambda>dtid.
       name_step d a sid tid st
         (diff_fields d a role flag dev_site sid dev_role dev_tenant tid dev_type dtid))))))))"
  unfolding device_update_dict_def diff_fields_def name_step_def Let_def ..

lemma diff_fields_id_key:
  "p_id (diff_fields d a role flag dev_site sid dev_role dev_tenant tid dev_type dtid) = Some (o_id d)"
  "p_custom_fields (diff_fields d a role flag dev_site sid dev_role dev_tenant tid dev_type dtid)
   = (if flag then Some (a_id a) else None)"
  by (simp_all add: diff_fields_def empty_payload_def Let_def)

lemma name_step_cases:
  "name_step d a sid tid st u7 = Inr u \<Longrightarrow> u = u7 \<or> (\<exists>n. u = u7\<lparr>p_name := Some n\<rparr>)"
  by (auto simp: name_step_def Let_def bind_e_Inr_iff split: if_splits option.splits)

lemma update_dict_id_key:
  assumes "device_update_dict d a role site tn dt flag st = Inr u"
  shows "p_id u = Some (o_id d) \<and> p_custom_fields u = (if flag then Some (a_id a) else None)"
proof -
  from assms obtain dev_site sid dev_role dev_tenant tid dev_type dtid where
    "name_step d a sid tid st
       (diff_fields d a role flag dev_site sid dev_role dev_tenant tid dev_type dtid) = Inr u"
    unfolding device_update_dict_alt bind_e_Inr_iff by blast
  from name_step_cases[OF this] diff_fields_id_key[of d a role flag dev_site sid dev_role
      dev_tenant tid dev_type dtid]
  show ?thesis by auto
qed

lemma find_append_cases:
  "find P (xs @ ys) = (case find P xs of None \<Rightarrow> find P ys | Some x \<Rightarrow> Some x)"
  by (induction xs) auto

lemma find_e_total: "find_e (\<lambda>x. Inr (P x)) xs = Inr (find P xs)"
  by (induction xs) auto

lemma find_name_tenant_Some:
  "find_name_tenant devs a (Some t)
   = Inr (find (\<lambda>item. o_name item = Some (a_name a) \<and> o_tenant item = Some (o_id t)) devs)"
  unfolding find_name_tenant_def
  by (induction devs) (auto simp: obj_id_def)

lemma fresh_id_gt: "x \<in> set xs \<Longrightarrow> o_id x < fresh_id xs"
  by (induction xs) (auto simp: fresh_id_def)

lemma payload_len_two: "p_id u = Some i \<Longrightarrow> p_custom_fields u = Some k \<Longrightarrow> 1 < payload_len u"
  by (simp add: payload_len_def opt_len_def)

lemma update_device_new_calls:
  "new_calls st (snd (update_device sy d a role site tn dt flag st)) = []
   \<or> (\<exists>u. new_calls st (snd (update_device sy d a role site tn dt flag st)) = [Update Device [u]]
         \<and> p_id u = Some (o_id d)
         \<and> p_custom_fields u = (if flag then Some (a_id a) else None))"
proof (cases "device_update_dict d a role site tn dt flag st")
  case (Inl e)
  then show ?thesis by (simp add: update_device_def)
next
  case (Inr u)
  from update_dict_id_key[OF this] Inr show ?thesis
    by (simp add: update_device_def)
qed

lemma update_device_stamps:
  assumes "fst (update_device sy d a role site tn dt True st) = Inr x"
  shows "\<exists>u. new_calls st (snd (update_device sy d a role site tn dt True st)) = [Update Device [u]]
           \<and> p_id u = Some (o_id d) \<and> p_custom_fields u = Some (a_id a)"
proof (cases "device_update_dict d a role site tn dt True st")
  case (Inl e)
  with assms show ?thesis by (simp add: update_device_def)
next
  case (Inr u)
  from update_dict_id_key[OF this] have k: "p_id u = Some (o_id d)" "p_custom_fields u = Some (a_id a)"
    by simp_all
  from payload_len_two[OF k] Inr k show ?thesis
    by (simp add: update_device_def)
qed

lemma sync_device_by_key:
  assumes "find (\<lambda>item. o_custom_field item = Some (a_id a)) devs = Some d"
  shows "sync_device sy dt tn devs role site a st
         = (case update_device sy d a role site tn dt False st of
              (Inl e, st') \<Rightarrow> (Inl e, st') | (Inr _, st') \<Rightarrow> (Inr devs, st'))"
  using assms by (simp add: sync_device_def)

lemma sync_device_by_tag:
  assumes "find (\<lambda>item. o_custom_field item = Some (a_id a)) devs = None"
      and "find (\<lambda>item. o_asset_tag item = Some (a_asset_tag a)) devs = Some d"
  shows "sync_device sy dt tn devs role site a st
         = (case update_device sy d a role site tn dt True st of
              (Inl e, st') \<Rightarrow> (Inl e, st') | (Inr _, st') \<Rightarrow> (Inr devs, st'))"
  using assms by (simp add: sync_device_def)

lemma snd_case_sum_pair:
  "snd (case x of (Inl e, st') \<Rightarrow> (Inl e, st') | (Inr y, st') \<Rightarrow> (f y, st')) = snd x"
  by (cases x) (auto split: sum.splits)

lemma sync_device_create:
  assumes "find (\<lambda>item. o_custom_field item = Some (a_id a)) devs = None"
      and "find (\<lambda>item. o_asset_tag item = Some (a_asset_tag a)) devs = None"
      and "find_name_tenant devs a tn = Inr m"
      and "dt = Some t" and "site = SiteRec sid"
  shows "sync_device sy dt tn devs role site a st
         = (Inr (devs @ [fst (nb_create Device
                   ((new_device_payload sy (if m = None then a_name a
                        else a_name a @ '' '' @ a_asset_tag a) a role (o_id t) tn)
                     \<lparr>p_site := Some sid\<rparr>) st)]),
            snd (nb_create Device
                   ((new_device_payload sy (if m = None then a_name a
                        else a_name a @ '' '' @ a_asset_tag a) a role (o_id t) tn)
                     \<lparr>p_site := Some sid\<rparr>) st))"
  using assms
  by (cases m) (simp_all add: sync_device_def obj_id_def site_has_id_def site_id_def Let_def split_beta)

lemma nb_create_fst: "fst (nb_create k p st) = obj_of_payload (fresh_id (nb_table st k)) p"
  by (simp add: nb_create_def Let_def)

lemma nb_create_table:
  "nb_table (snd (nb_create k p st)) k' =
     (if k' = k then nb_table st k @ [obj_of_payload (fresh_id (nb_table st k)) p]
      else nb_table st k')"
  by (simp add: nb_create_def Let_def)

lemma new_device_fields:
  "p_custom_fields ((new_device_payload sy name a role dtid tn)\<lparr>p_site := s\<rparr>) = Some (a_id a)"
  "p_name ((new_device_payload sy name a role dtid tn)\<lparr>p_site := s\<rparr>) = Some (Some name)"
  "p_asset_tag ((new_device_payload sy name a role dtid tn)\<lparr>p_site := s\<rparr>) = Some (a_asset_tag a)"
  "p_tenant ((new_device_payload sy name a role dtid tn)\<lparr>p_site := s\<rparr>) = Some (map_option o_id tn)"
  by (simp_all add: new_device_payload_def empty_payload_def)

lemma obj_of_payload_fields:
  "o_id (obj_of_payload i p) = i"
  "o_custom_field (obj_of_payload i p) = p_custom_fields p"
  "o_name (obj_of_payload i p) = or_else (p_name p) None"
  "o_asset_tag (obj_of_payload i p) = p_asset_tag p"
  "o_tenant (obj_of_payload i p) = or_else (p_tenant p) None"
  "o_site (obj_of_payload i p) = p_site p"
  by (simp_all add: obj_of_payload_def)

lemma two_assets:
  assumes n: "a_name a1 = a_name a2" and i: "a_id a1 \<noteq> a_id a2"
      and g: "a_asset_tag a1 \<noteq> a_asset_tag a2"
      and k1: "find (\<lambda>item. o_custom_field item = Some (a_id a1)) devs = None"
      and t1: "find (\<lambda>item. o_asset_tag item = Some (a_asset_tag a1)) devs = None"
      and k2: "find (\<lambda>item. o_custom_field item = Some (a_id a2)) devs = None"
      and t2: "find (\<lambda>item. o_asset_tag item = Some (a_asset_tag a2)) devs = None"
      and tn: "tn = Some tenant" and dt: "dt = Some t" and s: "site = SiteRec sid"
  shows "\<exists>d1 d2 st1 st2.
           sync_device sy dt tn devs role site a1 st = (Inr (devs @ [d1]), st1)
         \<and> sync_device sy dt tn (devs @ [d1]) role site a2 st1 = (Inr (devs @ [d1, d2]), st2)
         \<and> o_id d1 \<noteq> o_id d2
         \<and> o_custom_field d1 = Some (a_id a1) \<and> o_custom_field d2 = Some (a_id a2)
         \<and> o_name d2 = Some (a_name a2 @ '' '' @ a_asset_tag a2)
         \<and> nb_table st2 Device = nb_table st Device @ [d1, d2]"
proof -
  let ?P = "\<lambda>item. o_name item = Some (a_name a2) \<and> o_tenant item = Some (o_id tenant)"
  define m1 where "m1 = find ?P devs"
  define p1 where "p1 = (new_device_payload sy (if m1 = None then a_name a1
                        else a_name a1 @ '' '' @ a_asset_tag a1) a1 role (o_id t) tn)
                     \<lparr>p_site := Some sid\<rparr>"
  define d1 where "d1 = obj_of_payload (fresh_id (nb_table st Device)) p1"
  define st1 where "st1 = snd (nb_create Device p1 st)"
  have f1: "find_name_tenant devs a1 tn = Inr m1"
    unfolding tn m1_def by (simp add: find_name_tenant_Some n)
  have r1: "sync_device sy dt tn devs role site a1 st = (Inr (devs @ [d1]), st1)"
    using sync_device_create[OF k1 t1 f1 dt s, of sy role st]
    by (simp add: p1_def d1_def st1_def nb_create_fst)
  have d1f: "o_custom_field d1 = Some (a_id a1)" "o_asset_tag d1 = Some (a_asset_tag a1)"
    "o_tenant d1 = Some (o_id tenant)"
    "o_name d1 = Some (if m1 = None then a_name a1 else a_name a1 @ '' '' @ a_asset_tag a1)"
    by (simp_all add: d1_def p1_def obj_of_payload_fields new_device_fields or_else_def tn)
  have k2': "find (\<lambda>item. o_custom_field item = Some (a_id a2)) (devs @ [d1]) = None"
    using k2 d1f(1) i by (simp add: find_append_cases)
  have t2': "find (\<lambda>item. o_asset_tag item = Some (a_asset_tag a2)) (devs @ [d1]) = None"
    using t2 d1f(2) g by (simp add: find_append_cases)
  define m2 where "m2 = find ?P (devs @ [d1])"
  have m2: "m2 \<noteq> None"
    unfolding m2_def using d1f(3,4) n
    by (cases m1) (auto simp: find_append_cases m1_def)
  have f2: "find_name_tenant (devs @ [d1]) a2 tn = Inr m2"
    unfolding tn m2_def by (simp add: find_name_tenant_Some)
  define p2 where "p2 = (new_device_payload sy (a_name a2 @ '' '' @ a_asset_tag a2) a2 role
                          (o_id t) tn)\<lparr>p_site := Some sid\<rparr>"
  define d2 where "d2 = obj_of_payload (fresh_id (nb_table st1 Device)) p2"
  define st2 where "st2 = snd (nb_create Device p2 st1)"
  have r2: "sync_device sy dt tn (devs @ [d1]) role site a2 st1 = (Inr (devs @ [d1, d2]), st2)"
    using sync_device_create[OF k2' t2' f2 dt s, of sy role st1] m2
    by (simp add: p2_def d2_def st2_def nb_create_fst)
  have tb1: "nb_table st1 Device = nb_table st Device @ [d1]"
    by (simp add: st1_def nb_create_table d1_def)
  have tb2: "nb_table st2 Device = nb_table st Device @ [d1, d2]"
    by (simp add: st2_def nb_create_table d2_def tb1)
  have "o_id d1 < o_id d2"
    using fresh_id_gt[of d1 "nb_table st1 Device"]
    by (simp add: tb1 d2_def obj_of_payload_fields)
  moreover have "o_custom_field d2 = Some (a_id a2)"
    "o_name d2 = Some (a_name a2 @ '' '' @ a_asset_tag a2)"
    by (simp_all add: d2_def p2_def obj_of_payload_fields new_device_fields or_else_def)
  ultimately show ?thesis using r1 r2 d1f(1) tb2 by auto
qed

text \<open>
  The order of the searches of \<^verbatim>\<open>__sync_device\<close>, the first hit winning. (a) A device
  whose linkage key is the asset id is handed to \<^verbatim>\<open>__update_device\<close> without stamping:
  the only call it can make is one update of that device, without the linkage key.
  (b) Else a device whose asset tag is the asset's is handed to \<^verbatim>\<open>__update_device\<close>
  with stamping: the only call is one update of that device carrying the asset id as
  linkage key, and it is made whenever no exception is raised. (c) Else, the device
  type being resolved and the site a dictionary, the search by name and tenant decides
  the name only: one device is created, linked to the asset, named with the asset tag
  appended exactly when a device of the same name and tenant was found. So two assets
  of the same name and tenant, with different ids and tags and matched by no key or
  tag, yield two devices with different ids, the second carrying its tag in the name.
  What \<^verbatim>\<open>__update_device\<close> does for an asset without company is the matter of the
  last section.
\<close>

lemma device_matching_order:
  "(find (\<lambda>item. o_custom_field item = Some (a_id a)) devs = Some d \<longrightarrow>
      sync_device sy dt tn devs role site a st
        = (case update_device sy d a role site tn dt False st of
             (Inl e, st') \<Rightarrow> (Inl e, st') | (Inr _, st') \<Rightarrow> (Inr devs, st'))
      \<and> (new_calls st (snd (sync_device sy dt tn devs role site a st)) = []
          \<or> (\<exists>u. new_calls st (snd (sync_device sy dt tn devs role site a st))
                    = [Update Device [u]]
                \<and> p_id u = Some (o_id d) \<and> p_custom_fields u = None)))
   \<and> (find (\<lambda>item. o_custom_field item = Some (a_id a)) devs = None
       \<and> find (\<lambda>item. o_asset_tag item = Some (a_asset_tag a)) devs = Some d \<longrightarrow>
      sync_device sy dt tn devs role site a st
        = (case update_device sy d a role site tn dt True st of
             (Inl e, st') \<Rightarrow> (Inl e, st') | (Inr _, st') \<Rightarrow> (Inr devs, st'))
      \<and> (new_calls st (snd (sync_device sy dt tn devs role site a st)) = []
          \<or> (\<exists>u. new_calls st (snd (sync_device sy dt tn devs role site a st))
                    = [Update Device [u]]
                \<and> p_id u = Some (o_id d) \<and> p_custom_fields u = Some (a_id a)))
      \<and> (\<forall>x. fst (sync_device sy dt tn devs role site a st) = Inr x \<longrightarrow>
            new_calls st (snd (sync_device sy dt tn devs role site a st)) \<noteq> []))
   \<and> (find (\<lambda>item. o_custom_field item = Some (a_id a)) devs = None
       \<and> find (\<lambda>item. o_asset_tag item = Some (a_asset_tag a)) devs = None
       \<and> find_name_tenant devs a tn = Inr m \<and> dt = Some t \<and> site = SiteRec sid \<longrightarrow>
      (\<exists>p. sync_device sy dt tn devs role site a st
              = (Inr (devs @ [obj_of_payload (fresh_id (nb_table st Device)) p]),
                 snd (nb_create Device p st))
          \<and> new_calls st (snd (sync_device sy dt tn devs role site a st)) = [Create Device p]
          \<and> p_name p = Some (Some (if m = None then a_name a
                                     else a_name a @ '' '' @ a_asset_tag a))
          \<and> p_custom_fields p = Some (a_id a)))
   \<and> (a_name a1 = a_name a2 \<and> a_id a1 \<noteq> a_id a2 \<and> a_asset_tag a1 \<noteq> a_asset_tag a2
       \<and> find (\<lambda>item. o_custom_field item = Some (a_id a1)) devs = None
       \<and> find (\<lambda>item. o_asset_tag item = Some (a_asset_tag a1)) devs = None
       \<and> find (\<lambda>item. o_custom_field item = Some (a_id a2)) devs = None
       \<and> find (\<lambda>item. o_asset_tag item = Some (a_asset_tag a2)) devs = None
       \<and> tn = Some tenant \<and> dt = Some t \<and> site = SiteRec sid \<longrightarrow>
      (\<exists>d1 d2 st1 st2.
           sync_device sy dt tn devs role site a1 st = (Inr (devs @ [d1]), st1)
         \<and> sync_device sy dt tn (devs @ [d1]) role site a2 st1 = (Inr (devs @ [d1, d2]), st2)
         \<and> o_id d1 \<noteq> o_id d2
         \<and> o_custom_field d1 = Some (a_id a1) \<and> o_custom_field d2 = Some (a_id a2)
         \<and> o_name d2 = Some (a_name a2 @ '' '' @ a_asset_tag a2)
         \<and> nb_table st2 Device = nb_table st Device @ [d1, d2]))"
proof (intro conjI impI)
  assume k: "find (\<lambda>item. o_custom_field item = Some (a_id a)) devs = Some d"
  show "sync_device sy dt tn devs role site a st
        = (case update_device sy d a role site tn dt False st of
             (Inl e, st') \<Rightarrow> (Inl e, st') | (Inr _, st') \<Rightarrow> (Inr devs, st'))"
    by (rule sync_device_by_key[OF k])
  show "new_calls st (snd (sync_device sy dt tn devs role site a st)) = []
          \<or> (\<exists>u. new_calls st (snd (sync_device sy dt tn devs role site a st))
                    = [Update Device [u]]
                \<and> p_id u = Some (o_id d) \<and> p_custom_fields u = None)"
    using update_device_new_calls[of st sy d a role site tn dt False]
    by (simp add: sync_device_by_key[OF k] snd_case_sum_pair)
next
  assume "find (\<lambda>item. o_custom_field item = Some (a_id a)) devs = None
       \<and> find (\<lambda>item. o_asset_tag item = Some (a_asset_tag a)) devs = Some d"
  then have k: "find (\<lambda>item. o_custom_field item = Some (a_id a)) devs = None"
    and g: "find (\<lambda>item. o_asset_tag item = Some (a_asset_tag a)) devs = Some d" by simp_all
  note e = sync_device_by_tag[OF k g, of sy dt tn role site st]
  show "sync_device sy dt tn devs role site a st
        = (case update_device sy d a role site tn dt True st of
             (Inl e, st') \<Rightarrow> (Inl e, st') | (Inr _, st') \<Rightarrow> (Inr devs, st'))"
    by (rule e)
  show "new_calls st (snd (sync_device sy dt tn devs role site a st)) = []
          \<or> (\<exists>u. new_calls st (snd (sync_device sy dt tn devs role site a st))
                    = [Update Device [u]]
                \<and> p_id u = Some (o_id d) \<and> p_custom_fields u = Some (a_id a))"
    using update_device_new_calls[of st sy d a role site tn dt True]
    by (simp add: e snd_case_sum_pair)
  show "\<forall>x. fst (sync_device sy dt tn devs role site a st) = Inr x \<longrightarrow>
            new_calls st (snd (sync_device sy dt tn devs role site a st)) \<noteq> []"
  proof (intro allI impI)
    fix x assume "fst (sync_device sy dt tn devs role site a st) = Inr x"
    then have "fst (update_device sy d a role site tn dt True st) = Inr ()"
      unfolding e by (cases "update_device sy d a role site tn dt True st") (auto split: sum.splits)
    from update_device_stamps[OF this]
    show "new_calls st (snd (sync_device sy dt tn devs role site a st)) \<noteq> []"
      by (auto simp: e snd_case_sum_pair)
  qed
next
  assume "find (\<lambda>item. o_custom_field item = Some (a_id a)) devs = None
       \<and> find (\<lambda>item. o_asset_tag item = Some (a_asset_tag a)) devs = None
       \<and> find_name_tenant devs a tn = Inr m \<and> dt = Some t \<and> site = SiteRec sid"
  then have h: "find (\<lambda>item. o_custom_field item = Some (a_id a)) devs = None"
    "find (\<lambda>item. o_asset_tag item = Some (a_asset_tag a)) devs = None"
    "find_name_tenant devs a tn = Inr m" "dt = Some t" "site = SiteRec sid" by simp_all
  let ?p = "(new_device_payload sy (if m = None then a_name a
                        else a_name a @ '' '' @ a_asset_tag a) a role (o_id t) tn)
                     \<lparr>p_site := Some sid\<rparr>"
  note e = sync_device_create[OF h, of sy role st]
  show "\<exists>p. sync_device sy dt tn devs role site a st
              = (Inr (devs @ [obj_of_payload (fresh_id (nb_table st Device)) p]),
                 snd (nb_create Device p st))
          \<and> new_calls st (snd (sync_device sy dt tn devs role site a st)) = [Create Device p]
          \<and> p_name p = Some (Some (if m = None then a_name a
                                     else a_name a @ '' '' @ a_asset_tag a))
          \<and> p_custom_fields p = Some (a_id a)"
    by (rule exI[of _ ?p]) (simp add: e nb_create_fst new_device_fields)
next
  assume "a_name a1 = a_name a2 \<and> a_id a1 \<noteq> a_id a2 \<and> a_asset_tag a1 \<noteq> a_asset_tag a2
       \<and> find (\<lambda>item. o_custom_field item = Some (a_id a1)) devs = None
       \<and> find (\<lambda>item. o_asset_tag item = Some (a_asset_tag a1)) devs = None
       \<and> find (\<lambda>item. o_custom_field item = Some (a_id a2)) devs = None
       \<and> find (\<lambda>item. o_asset_tag item = Some (a_asset_tag a2)) devs = None
       \<and> tn = Some tenant \<and> dt = Some t \<and> site = SiteRec sid"
  then show "\<exists>d1 d2 st1 st2.
           sync_device sy dt tn devs role site a1 st = (Inr (devs @ [d1]), st1)
         \<and> sync_device sy dt tn (devs @ [d1]) role site a2 st1 = (Inr (devs @ [d1, d2]), st2)
         \<and> o_id d1 \<noteq> o_id d2
         \<and> o_custom_field d1 = Some (a_id a1) \<and> o_custom_field d2 = Some (a_id a2)
         \<and> o_name d2 = Some (a_name a2 @ '' '' @ a_asset_tag a2)
         \<and> nb_table st2 Device = nb_table st Device @ [d1, d2]"
    using two_assets[of a1 a2 devs tn tenant dt t site sid sy role st] by blast
qed

lemmas c3_defs = asset_retag_def asset_twin_def asset_new_def

lemma device_matching_order_example:
  "sync_device sy_open (Some ex_ref) (Some ex_ref) [ex_device] ex_role (SiteRec 1) ex_asset ex_store
     = (case update_device sy_open ex_device ex_asset ex_role (SiteRec 1) (Some ex_ref)
               (Some ex_ref) False ex_store of
          (Inl e, st') \<Rightarrow> (Inl e, st') | (Inr _, st') \<Rightarrow> (Inr [ex_device], st'))
   \<and> sync_device sy_open (Some ex_ref) (Some ex_ref) [ex_device] ex_role (SiteRec 1) asset_retag
        ex_store
     = (case update_device sy_open ex_device asset_retag ex_role (SiteRec 1) (Some ex_ref)
               (Some ex_ref) True ex_store of
          (Inl e, st') \<Rightarrow> (Inl e, st') | (Inr _, st') \<Rightarrow> (Inr [ex_device], st'))
   \<and> (\<exists>p. new_calls ex_store
             (snd (sync_device sy_open (Some ex_ref) (Some ex_ref) [ex_device] ex_role (SiteRec 1)
                     asset_twin ex_store)) = [Create Device p]
          \<and> p_name p = Some (Some ''pc T10''))
   \<and> (\<exists>p. new_calls ex_store
             (snd (sync_device sy_open (Some ex_ref) (Some ex_ref) [ex_device] ex_role (SiteRec 1)
                     asset_new ex_store)) = [Create Device p]
          \<and> p_name p = Some (Some ''srv''))
   \<and> (\<exists>d1 d2 st1 st2.
         sync_device sy_open (Some ex_ref) (Some ex_ref) [] ex_role (SiteRec 1) asset_twin
           empty_netbox = (Inr [d1], st1)
       \<and> sync_device sy_open (Some ex_ref) (Some ex_ref) [d1] ex_role (SiteRec 1)
           asset_retag st1 = (Inr [d1, d2], st2)
       \<and> o_id d1 \<noteq> o_id d2
       \<and> o_name d2 = Some ''pc T7'')"
proof -
  note T = device_matching_order
  have k1: "find (\<lambda>item. o_custom_field item = Some (a_id ex_asset)) [ex_device] = Some ex_device"
    by (simp add: ex_defs)
  have k2: "find (\<lambda>item. o_custom_field item = Some (a_id asset_retag)) [ex_device] = None
            \<and> find (\<lambda>item. o_asset_tag item = Some (a_asset_tag asset_retag)) [ex_device]
              = Some ex_device"
    by (simp add: ex_defs c3_defs)
  have k3: "find (\<lambda>item. o_custom_field item = Some (a_id asset_twin)) [ex_device] = None
            \<and> find (\<lambda>item. o_asset_tag item = Some (a_asset_tag asset_twin)) [ex_device] = None
            \<and> find_name_tenant [ex_device] asset_twin (Some ex_ref) = Inr (Some ex_device)
            \<and> Some ex_ref = Some ex_ref \<and> SiteRec 1 = SiteRec 1"
    by (simp add: ex_defs c3_defs find_name_tenant_def obj_id_def)
  have k4: "find (\<lambda>item. o_custom_field item = Some (a_id asset_new)) [ex_device] = None
            \<and> find (\<lambda>item. o_asset_tag item = Some (a_asset_tag asset_new)) [ex_device] = None
            \<and> find_name_tenant [ex_device] asset_new (Some ex_ref) = Inr None
            \<and> Some ex_ref = Some ex_ref \<and> SiteRec 1 = SiteRec 1"
    by (simp add: ex_defs c3_defs find_name_tenant_def obj_id_def)
  have k5: "a_name asset_twin = a_name asset_retag \<and> a_id asset_twin \<noteq> a_id asset_retag
       \<and> a_asset_tag asset_twin \<noteq> a_asset_tag asset_retag
       \<and> find (\<lambda>item. o_custom_field item = Some (a_id asset_twin)) [] = None
       \<and> find (\<lambda>item. o_asset_tag item = Some (a_asset_tag asset_twin)) [] = None
       \<and> find (\<lambda>item. o_custom_field item = Some (a_id asset_retag)) [] = None
       \<and> find (\<lambda>item. o_asset_tag item = Some (a_asset_tag asset_retag)) [] = None
       \<and> Some ex_ref = Some ex_ref \<and> Some ex_ref = Some ex_ref \<and> SiteRec 1 = SiteRec 1"
    by (simp add: ex_defs c3_defs)
  have w1: "sync_device sy_open (Some ex_ref) (Some ex_ref) [ex_device] ex_role (SiteRec 1) ex_asset ex_store
     = (case update_device sy_open ex_device ex_asset ex_role (SiteRec 1) (Some ex_ref)
               (Some ex_ref) False ex_store of
          (Inl e, st') \<Rightarrow> (Inl e, st') | (Inr _, st') \<Rightarrow> (Inr [ex_device], st'))"
    using T[THEN conjunct1, rule_format, OF k1] by blast
  have w2: "sync_device sy_open (Some ex_ref) (Some ex_ref) [ex_device] ex_role (SiteRec 1) asset_retag
        ex_store
     = (case update_device sy_open ex_device asset_retag ex_role (SiteRec 1) (Some ex_ref)
               (Some ex_ref) True ex_store of
          (Inl e, st') \<Rightarrow> (Inl e, st') | (Inr _, st') \<Rightarrow> (Inr [ex_device], st'))"
    using T[THEN conjunct2, THEN conjunct1, rule_format, OF k2] by blast
  have w3: "\<exists>p. new_calls ex_store
             (snd (sync_device sy_open (Some ex_ref) (Some ex_ref) [ex_device] ex_role (SiteRec 1)
                     asset_twin ex_store)) = [Create Device p]
          \<and> p_name p = Some (Some ''pc T10'')"
    using T[THEN conjunct2, THEN conjunct2, THEN conjunct1, rule_format, OF k3,
        where sy = sy_open and role = ex_role and st = ex_store]
    by (auto simp: ex_defs c3_defs)
  have w4: "\<exists>p. new_calls ex_store
             (snd (sync_device sy_open (Some ex_ref) (Some ex_ref) [ex_device] ex_role (SiteRec 1)
                     asset_new ex_store)) = [Create Device p]
          \<and> p_name p = Some (Some ''srv'')"
    using T[THEN conjunct2, THEN conjunct2, THEN conjunct1, rule_format, OF k4,
        where sy = sy_open and role = ex_role and st = ex_store]
    by (auto simp: ex_defs c3_defs)
  have w5: "\<exists>d1 d2 st1 st2.
         sync_device sy_open (Some ex_ref) (Some ex_ref) [] ex_role (SiteRec 1) asset_twin
           empty_netbox = (Inr [d1], st1)
       \<and> sync_device sy_open (Some ex_ref) (Some ex_ref) [d1] ex_role (SiteRec 1)
           asset_retag st1 = (Inr [d1, d2], st2)
       \<and> o_id d1 \<noteq> o_id d2
       \<and> o_name d2 = Some ''pc T7''"
    using T[THEN conjunct2, THEN conjunct2, THEN conjunct2, rule_format, OF k5,
        where sy = sy_open and role = ex_role and st = empty_netbox]
    by (auto simp: ex_defs c3_defs)
  from w1 w2 w3 w4 w5 show ?thesis by blast
qed

subsection \<open>The decision table\<close>

lemmas table_defs = follows_table_def entity_match_def diff_empty_def

lemma company_table:
  "follows_table sy Tenant (ref_id c) (\<lambda>item. o_name item = Some (ref_name c))
     (\<lambda>t. o_name t = Some (ref_name c)) snapshot
     (new_calls st (sync_company sy desc0 snapshot c st))"
  by (auto simp: table_defs sync_company_def empty_payload_def split: option.splits)

lemma manufacturer_table:
  "follows_table sy Manufacturer (ref_id c) (\<lambda>item. o_name item = Some (ref_name c))
     (\<lambda>t. o_name t = Some (ref_name c)) snapshot
     (new_calls st (sync_manufacturer sy snapshot c st))"
  by (auto simp: table_defs sync_manufacturer_def empty_payload_def split: option.splits)

lemma site_table:
  "follows_table sy Site (l_id l) (\<lambda>item. o_name item = Some (l_name l))
     (\<lambda>t. o_name t = Some (l_name l)) snapshot
     (new_calls st (sync_top_location sy snapshot l st))"
  by (auto simp: table_defs sync_top_location_def empty_payload_def split: option.splits)

lemma find_devtype_by_name_total:
  "\<forall>item\<in>set dts. o_manufacturer item \<noteq> None \<Longrightarrow>
   find_devtype_by_name dts model
   = Inr (find (\<lambda>item. o_model item = m_name model
                 \<and> o_manufacturer_name item = Some (ref_name (m_manufacturer model))) dts)"
  unfolding find_devtype_by_name_def
  by (induction dts) (auto split: option.splits)

lemma find_location_by_name_total:
  "\<forall>item\<in>set locs. o_site item \<noteq> None \<Longrightarrow>
   find_location_by_name locs l site
   = Inr (find (\<lambda>item. o_name item = Some (l_name l) \<and> o_site item = Some (o_id site)) locs)"
  unfolding find_location_by_name_def
  by (induction locs) (auto split: option.splits)

lemma find_Some_set: "find P xs = Some x \<Longrightarrow> x \<in> set xs \<and> P x"
  by (induction xs) (auto split: if_splits)

lemma devtype_update_obj_resolved:
  assumes "o_manufacturer t = Some cur"
  shows "\<exists>u. devtype_update_obj t model (Some manuf) = Inr u
           \<and> p_custom_fields u = None
           \<and> (p_id u = None \<longleftrightarrow> (o_model t = m_name model \<and> o_part_number t = m_model_number model
                                   \<and> o_manufacturer t = Some (o_id manuf)))
           \<and> (p_id u \<noteq> None \<longrightarrow> p_id u = Some (o_id t))"
proof -
  define u where "u = (let u0 = empty_payload;
          u1 = (if o_model t \<noteq> m_name model
                then u0\<lparr>p_id := Some (o_id t), p_model := Some (m_name model),
                       p_slug := Some (slugify (m_name model))\<rparr> else u0);
          u2 = (if o_part_number t \<noteq> m_model_number model
                then u1\<lparr>p_id := Some (o_id t),
                       p_part_number := Some (m_model_number model)\<rparr> else u1)
      in (if cur \<noteq> o_id manuf
          then u2\<lparr>p_id := Some (o_id t), p_manufacturer := Some (o_id manuf)\<rparr>
          else u2))"
  have e: "devtype_update_obj t model (Some manuf) = Inr u"
    unfolding u_def devtype_update_obj_def Let_def using assms by (simp add: manuf_id_def)
  have k: "p_custom_fields u = None"
    unfolding u_def Let_def
    by (simp add: if_distrib[where f = p_custom_fields] empty_payload_def)
  have i: "p_id u = (if cur \<noteq> o_id manuf \<or> o_part_number t \<noteq> m_model_number model
                       \<or> o_model t \<noteq> m_name model then Some (o_id t) else None)"
    unfolding u_def Let_def
    by (simp add: if_distrib[where f = p_id] empty_payload_def)
  from e k i assms show ?thesis by auto
qed

lemma model_table:
  assumes mf: "find (\<lambda>item. o_name item = Some (ref_name (m_manufacturer model))) manufs = Some manuf"
      and wf: "\<forall>item\<in>set dts. o_manufacturer item \<noteq> None"
  shows "fst (sync_model sy dts manufs model st) = Inr ()
         \<and> follows_table sy DeviceType (m_id model)
             (\<lambda>item. o_model item = m_name model
                    \<and> o_manufacturer_name item = Some (ref_name (m_manufacturer model)))
             (\<lambda>t. o_model t = m_name model \<and> o_part_number t = m_model_number model
                    \<and> o_manufacturer t = Some (o_id manuf))
             dts (new_calls st (snd (sync_model sy dts manufs model st)))"
proof (cases "find (\<lambda>item. o_custom_field item = Some (m_id model)) dts")
  case None
  then show ?thesis
    using mf find_devtype_by_name_total[OF wf, of model]
    by (auto simp: table_defs sync_model_def manuf_id_def empty_payload_def Let_def
        split: option.splits)
next
  case (Some t)
  from find_Some_set[OF Some] wf obtain cur where c: "o_manufacturer t = Some cur" by auto
  from devtype_update_obj_resolved[OF c, of model manuf] obtain u where
    u: "devtype_update_obj t model (Some manuf) = Inr u
        \<and> p_custom_fields u = None
        \<and> (p_id u = None \<longleftrightarrow> (o_model t = m_name model \<and> o_part_number t = m_model_number model
                                   \<and> o_manufacturer t = Some (o_id manuf)))
        \<and> (p_id u \<noteq> None \<longrightarrow> p_id u = Some (o_id t))" ..
  show ?thesis
    using Some mf u
    by (auto simp: table_defs sync_model_def Let_def)
qed

lemma location_table:
  assumes wf: "\<forall>item\<in>set locs. o_site item \<noteq> None"
  shows "fst (sync_location_in_site sy site locs l st) = Inr ()
         \<and> follows_table sy Location (l_id l)
             (\<lambda>item. o_name item = Some (l_name l) \<and> o_site item = Some (o_id site))
             (\<lambda>t. o_name t = Some (l_name l) \<and> o_site t = Some (o_id site))
             locs (new_calls st (snd (sync_location_in_site sy site locs l st)))"
proof (cases "find (\<lambda>item. o_custom_field item = Some (l_id l)) locs")
  case None
  then show ?thesis
    using find_location_by_name_total[OF wf, of l site]
    by (auto simp: table_defs sync_location_in_site_def empty_payload_def Let_def
        split: option.splits)
next
  case (Some t)
  from find_Some_set[OF Some] wf obtain cur where c: "o_site t = Some cur" by auto
  show ?thesis
    using Some c
    by (auto simp: table_defs sync_location_in_site_def empty_payload_def Let_def)
qed

lemmas ex2_defs = ex_manuf_def ex_model_def ex_site_def loc_hq_def loc_room_def ex_devtype_def

text \<open>
  The calls of one step of each stage other than the devices', against the decision
  table. For a company, a manufacturer and a top location the calls of the step are
  those of the table, for every snapshot. For a model they are when the model's
  manufacturer is found by name among the NetBox manufacturers and every device type
  read has a manufacturer; for a location when the walk to its site has found a site
  and every location read has a site; the step then raises nothing. Matching is by
  linkage key, else by name (for a device type: model name and manufacturer name; for a
  location: name within the site found). The diff is the name (company, manufacturer,
  site), the model name, part number and manufacturer (device type), the name and site
  (location). A model whose manufacturer is not found by name is the matter of the last
  section.
\<close>

lemma decision_table_steps:
  "follows_table sy Tenant (ref_id c) (\<lambda>item. o_name item = Some (ref_name c))
     (\<lambda>t. o_name t = Some (ref_name c)) tenants
     (new_calls st (sync_company sy desc0 tenants c st))
   \<and> follows_table sy Manufacturer (ref_id mf) (\<lambda>item. o_name item = Some (ref_name mf))
       (\<lambda>t. o_name t = Some (ref_name mf)) manufs
       (new_calls st (sync_manufacturer sy manufs mf st))
   \<and> follows_table sy Site (l_id tloc) (\<lambda>item. o_name item = Some (l_name tloc))
       (\<lambda>t. o_name t = Some (l_name tloc)) sites
       (new_calls st (sync_top_location sy sites tloc st))
   \<and> (find (\<lambda>item. o_name item = Some (ref_name (m_manufacturer model))) manufs = Some manuf
        \<and> (\<forall>item\<in>set dts. o_manufacturer item \<noteq> None) \<longrightarrow>
       fst (sync_model sy dts manufs model st) = Inr ()
       \<and> follows_table sy DeviceType (m_id model)
           (\<lambda>item. o_model item = m_name model
                  \<and> o_manufacturer_name item = Some (ref_name (m_manufacturer model)))
           (\<lambda>t. o_model t = m_name model \<and> o_part_number t = m_model_number model
                  \<and> o_manufacturer t = Some (o_id manuf))
           dts (new_calls st (snd (sync_model sy dts manufs model st))))
   \<and> (find_site sites lwp (l_parent l) = Some (Some site)
        \<and> (\<forall>item\<in>set locs. o_site item \<noteq> None) \<longrightarrow>
       (\<exists>st'. sync_location sy sites locs lwp l st = Some (Inr (), st')
          \<and> follows_table sy Location (l_id l)
              (\<lambda>item. o_name item = Some (l_name l) \<and> o_site item = Some (o_id site))
              (\<lambda>t. o_name t = Some (l_name l) \<and> o_site t = Some (o_id site))
              locs (new_calls st st')))"
proof (intro conjI impI)
  show "follows_table sy Tenant (ref_id c) (\<lambda>item. o_name item = Some (ref_name c))
     (\<lambda>t. o_name t = Some (ref_name c)) tenants
     (new_calls st (sync_company sy desc0 tenants c st))"
    by (rule company_table)
  show "follows_table sy Manufacturer (ref_id mf) (\<lambda>item. o_name item = Some (ref_name mf))
       (\<lambda>t. o_name t = Some (ref_name mf)) manufs
       (new_calls st (sync_manufacturer sy manufs mf st))"
    by (rule manufacturer_table)
  show "follows_table sy Site (l_id tloc) (\<lambda>item. o_name item = Some (l_name tloc))
       (\<lambda>t. o_name t = Some (l_name tloc)) sites
       (new_calls st (sync_top_location sy sites tloc st))"
    by (rule site_table)
next
  assume h: "find (\<lambda>item. o_name item = Some (ref_name (m_manufacturer model))) manufs = Some manuf
        \<and> (\<forall>item\<in>set dts. o_manufacturer item \<noteq> None)"
  from model_table[of model manufs manuf dts sy st] h
  show "fst (sync_model sy dts manufs model st) = Inr ()"
    and "follows_table sy DeviceType (m_id model)
           (\<lambda>item. o_model item = m_name model
                  \<and> o_manufacturer_name item = Some (ref_name (m_manufacturer model)))
           (\<lambda>t. o_model t = m_name model \<and> o_part_number t = m_model_number model
                  \<and> o_manufacturer t = Some (o_id manuf))
           dts (new_calls st (snd (sync_model sy dts manufs model st)))"
    by blast+
next
  assume h: "find_site sites lwp (l_parent l) = Some (Some site)
        \<and> (\<forall>item\<in>set locs. o_site item \<noteq> None)"
  then have e: "sync_location sy sites locs lwp l st
                = Some (sync_location_in_site sy site locs l st)"
    by (simp add: sync_location_def)
  from location_table[of locs sy site l st] h
  have "fst (sync_location_in_site sy site locs l st) = Inr ()"
    and f: "follows_table sy Location (l_id l)
              (\<lambda>item. o_name item = Some (l_name l) \<and> o_site item = Some (o_id site))
              (\<lambda>t. o_name t = Some (l_name l) \<and> o_site t = Some (o_id site))
              locs (new_calls st (snd (sync_location_in_site sy site locs l st)))"
    by blast+
  then have "sync_location_in_site sy site locs l st
             = (Inr (), snd (sync_location_in_site sy site locs l st))"
    by (cases "sync_location_in_site sy site locs l st") simp
  with e f
  show "\<exists>st'. sync_location sy sites locs lwp l st = Some (Inr (), st')
          \<and> follows_table sy Location (l_id l)
              (\<lambda>item. o_name item = Some (l_name l) \<and> o_site item = Some (o_id site))
              (\<lambda>t. o_name t = Some (l_name l) \<and> o_site t = Some (o_id site))
              locs (new_calls st st')"
    by auto
qed

lemma decision_table_steps_example:
  "fst (sync_model sy_strict [] [ex_manuf] ex_model empty_netbox) = Inr ()
   \<and> follows_table sy_strict DeviceType 4
       (\<lambda>item. o_model item = ''XPS'' \<and> o_manufacturer_name item = Some ''Dell'')
       (\<lambda>t. o_model t = ''XPS'' \<and> o_part_number t = Some ''X1'' \<and> o_manufacturer t = Some 1)
       [] (new_calls empty_netbox (snd (sync_model sy_strict [] [ex_manuf] ex_model empty_netbox)))
   \<and> decide (entity_match 4
         (\<lambda>item. o_model item = ''XPS'' \<and> o_manufacturer_name item = Some ''Dell'') [])
         True False False = ACreate
   \<and> (\<exists>st'. sync_location sy_strict [ex_site] [] [loc_room] loc_room empty_netbox
                = Some (Inr (), st')
          \<and> follows_table sy_strict Location 2
              (\<lambda>item. o_name item = Some ''Room'' \<and> o_site item = Some 1)
              (\<lambda>t. o_name t = Some ''Room'' \<and> o_site t = Some 1)
              [] (new_calls empty_netbox st'))"
proof -
  have h1: "find (\<lambda>item. o_name item = Some (ref_name (m_manufacturer ex_model))) [ex_manuf]
              = Some ex_manuf
            \<and> (\<forall>item\<in>set ([] :: nb_obj list). o_manufacturer item \<noteq> None)"
    by (simp add: ex2_defs ex_defs)
  have h2: "find_site [ex_site] [loc_room] (l_parent loc_room) = Some (Some ex_site)
            \<and> (\<forall>item\<in>set ([] :: nb_obj list). o_site item \<noteq> None)"
    by (simp add: ex2_defs ex_defs find_site.simps)
  note T = decision_table_steps[where dts = "[]" and manufs = "[ex_manuf]" and model = ex_model
      and manuf = ex_manuf and sites = "[ex_site]" and lwp = "[loc_room]" and l = loc_room
      and site = ex_site and locs = "[]" and sy = sy_strict and st = empty_netbox]
  from T h1 have w1: "fst (sync_model sy_strict [] [ex_manuf] ex_model empty_netbox) = Inr ()
     \<and> follows_table sy_strict DeviceType (m_id ex_model)
       (\<lambda>item. o_model item = m_name ex_model
             \<and> o_manufacturer_name item = Some (ref_name (m_manufacturer ex_model)))
       (\<lambda>t. o_model t = m_name ex_model \<and> o_part_number t = m_model_number ex_model
             \<and> o_manufacturer t = Some (o_id ex_manuf))
       [] (new_calls empty_netbox (snd (sync_model sy_strict [] [ex_manuf] ex_model empty_netbox)))"
    by blast
  from T h2 have w2: "\<exists>st'. sync_location sy_strict [ex_site] [] [loc_room] loc_room empty_netbox
                = Some (Inr (), st')
          \<and> follows_table sy_strict Location (l_id loc_room)
              (\<lambda>item. o_name item = Some (l_name loc_room) \<and> o_site item = Some (o_id ex_site))
              (\<lambda>t. o_name t = Some (l_name loc_room) \<and> o_site t = Some (o_id ex_site))
              [] (new_calls empty_netbox st')"
    by blast
  have d: "decide (entity_match 4
         (\<lambda>item. o_model item = ''XPS'' \<and> o_manufacturer_name item = Some ''Dell'') [])
         True False False = ACreate"
    by (simp add: entity_match_def)
  from w1 w2 d show ?thesis
    by (simp add: ex2_defs ex_defs)
qed

subsection \<open>C5: the site of a nested location\<close>

lemma find_site_climb:
  "climb sites lwp n p = Some anc \<Longrightarrow>
   find_site sites lwp (Some p) = find_site sites lwp (Some anc)"
proof (induction n arbitrary: p)
  case 0
  then show ?case by simp
next
  case (Suc n)
  from Suc.prems obtain parent_item q where
    s: "find (\<lambda>item. o_custom_field item = Some (ref_id p)) sites = None"
    and i: "find (\<lambda>item. l_id item = ref_id p) lwp = Some parent_item"
    and q: "l_parent parent_item = Some q" and c: "climb sites lwp n q = Some anc"
    by (auto split: option.splits)
  have "find_site sites lwp (Some p) = find_site sites lwp (Some q)"
    by (subst find_site.simps) (simp add: s i q)
  with Suc.IH[OF c] show ?case by simp
qed

lemma find_site_linked:
  "find (\<lambda>item. o_custom_field item = Some (ref_id anc)) sites = Some site \<Longrightarrow>
   find_site sites lwp (Some anc) = Some (Some site)"
  by (subst find_site.simps) simp

lemma find_site_ends:
  "find (\<lambda>item. o_custom_field item = Some (ref_id e)) sites = None \<Longrightarrow> chain_ends lwp e \<Longrightarrow>
   find_site sites lwp (Some e) = Some None"
  apply (subst find_site.simps)
  apply (simp add: chain_ends_def split: option.splits)
  apply (subst find_site.simps, simp)+
  done

text \<open>
  Claim C5. The site of a location with a parent is found by the walk up the chain of
  parents, which stops at the first ancestor linked to a site. So when the walk from
  the parent \<open>p\<close> of a location \<open>ln\<close> reaches, after any number \<open>n\<close> of steps, the ancestor
  \<open>anc\<close> linked to \<open>site\<close>, the location resolves to \<open>site\<close>, as does a location \<open>l1\<close> whose
  parent is \<open>anc\<close> itself, and it is reconciled within that site. When the walk reaches
  an ancestor \<open>e\<close> that is not linked to a site and that it cannot leave, the function
  returns after logging the error and the store is unchanged: nothing is written for
  that location.
\<close>

theorem C5_owning_site_depth_invariance:
  "(climb sites lwp n p = Some anc
    \<and> find (\<lambda>item. o_custom_field item = Some (ref_id anc)) sites = Some site
    \<and> l_parent l1 = Some anc \<and> l_parent ln = Some p \<longrightarrow>
      find_site sites lwp (l_parent l1) = Some (Some site)
      \<and> find_site sites lwp (l_parent ln) = Some (Some site)
      \<and> sync_location sy sites locs lwp ln st
         = Some (sync_location_in_site sy site locs ln st))
   \<and> (climb sites lwp n p = Some e
       \<and> find (\<lambda>item. o_custom_field item = Some (ref_id e)) sites = None
       \<and> chain_ends lwp e \<and> l_parent ln = Some p \<longrightarrow>
      find_site sites lwp (l_parent ln) = Some None
      \<and> sync_location sy sites locs lwp ln st = Some (Inr (), st))"
proof (intro conjI impI)
  assume h: "climb sites lwp n p = Some anc
    \<and> find (\<lambda>item. o_custom_field item = Some (ref_id anc)) sites = Some site
    \<and> l_parent l1 = Some anc \<and> l_parent ln = Some p"
  from h find_site_linked[of anc sites site lwp]
  show "find_site sites lwp (l_parent l1) = Some (Some site)" by simp
  from h find_site_climb[of sites lwp n p anc] find_site_linked[of anc sites site lwp]
  show "find_site sites lwp (l_parent ln) = Some (Some site)" by simp
  then show "sync_location sy sites locs lwp ln st
         = Some (sync_location_in_site sy site locs ln st)"
    by (simp add: sync_location_def)
next
  assume h: "climb sites lwp n p = Some e
       \<and> find (\<lambda>item. o_custom_field item = Some (ref_id e)) sites = None
       \<and> chain_ends lwp e \<and> l_parent ln = Some p"
  from h find_site_climb[of sites lwp n p e] find_site_ends[of e sites lwp]
  show "find_site sites lwp (l_parent ln) = Some None" by simp
  then show "sync_location sy sites locs lwp ln st = Some (Inr (), st)"
    by (simp add: sync_location_def)
qed

text \<open>
  The theorem at the tree HQ > Room > Desk > Shelf: with the site of HQ in the target,
  Shelf (two steps below Room, whose parent is HQ) and Room resolve to that site; with
  no site in the target the walk from Shelf ends at HQ and nothing is written.
\<close>

theorem C5_owning_site_depth_invariance_witness:
  "climb [ex_site] [loc_room, loc_desk, loc_shelf] 2 ref_desk = Some ref_hq
   \<and> find_site [ex_site] [loc_room, loc_desk, loc_shelf] (l_parent loc_room) = Some (Some ex_site)
   \<and> find_site [ex_site] [loc_room, loc_desk, loc_shelf] (l_parent loc_shelf) = Some (Some ex_site)
   \<and> sync_location sy_open [ex_site] [] [loc_room, loc_desk, loc_shelf] loc_shelf empty_netbox
       = Some (sync_location_in_site sy_open ex_site [] loc_shelf empty_netbox)
   \<and> climb [] [loc_room, loc_desk, loc_shelf] 2 ref_desk = Some ref_hq
   \<and> chain_ends [loc_room, loc_desk, loc_shelf] ref_hq
   \<and> find_site [] [loc_room, loc_desk, loc_shelf] (l_parent loc_shelf) = Some None
   \<and> sync_location sy_open [] [] [loc_room, loc_desk, loc_shelf] loc_shelf empty_netbox
       = Some (Inr (), empty_netbox)"
proof -
  have c1: "climb [ex_site] [loc_room, loc_desk, loc_shelf] 2 ref_desk = Some ref_hq"
    by (simp add: numeral_2_eq_2 ex_site_def blank_obj_def loc_room_def loc_desk_def
        loc_shelf_def ref_hq_def ref_room_def ref_desk_def)
  have c2: "climb [] [loc_room, loc_desk, loc_shelf] 2 ref_desk = Some ref_hq"
    by (simp add: numeral_2_eq_2 loc_room_def loc_desk_def
        loc_shelf_def ref_hq_def ref_room_def ref_desk_def)
  have f1: "find (\<lambda>item. o_custom_field item = Some (ref_id ref_hq)) [ex_site] = Some ex_site"
    by (simp add: ex_site_def blank_obj_def ref_hq_def)
  have e2: "chain_ends [loc_room, loc_desk, loc_shelf] ref_hq"
    by (simp add: chain_ends_def loc_room_def loc_desk_def loc_shelf_def ref_hq_def)
  have p1: "l_parent loc_room = Some ref_hq" by (simp add: loc_room_def ref_hq_def)
  have p2: "l_parent loc_shelf = Some ref_desk" by (simp add: loc_shelf_def)
  from C5_owning_site_depth_invariance[where sites = "[ex_site]"
      and lwp = "[loc_room, loc_desk, loc_shelf]" and n = 2 and p = ref_desk and anc = ref_hq
      and site = ex_site and ?l1.0 = loc_room and ln = loc_shelf and sy = sy_open
      and locs = "[]" and st = empty_netbox] c1 f1 p1 p2
  have a: "find_site [ex_site] [loc_room, loc_desk, loc_shelf] (l_parent loc_room)
             = Some (Some ex_site)
   \<and> find_site [ex_site] [loc_room, loc_desk, loc_shelf] (l_parent loc_shelf) = Some (Some ex_site)
   \<and> sync_location sy_open [ex_site] [] [loc_room, loc_desk, loc_shelf] loc_shelf empty_netbox
       = Some (sync_location_in_site sy_open ex_site [] loc_shelf empty_netbox)"
    by simp
  from C5_owning_site_depth_invariance[where sites = "[]"
      and lwp = "[loc_room, loc_desk, loc_shelf]" and n = 2 and p = ref_desk and e = ref_hq
      and ln = loc_shelf and sy = sy_open and locs = "[]" and st = empty_netbox] c2 e2 p2
  have b: "find_site [] [loc_room, loc_desk, loc_shelf] (l_parent loc_shelf) = Some None
   \<and> sync_location sy_open [] [] [loc_room, loc_desk, loc_shelf] loc_shelf empty_netbox
       = Some (Inr (), empty_netbox)"
    by simp
  from a b c1 c2 e2 show ?thesis by simp
qed

subsection \<open>The relationship stage\<close>

lemmas c6_defs = t_room_def t_other_def t_desk_def st_moved_def st_fresh_def st_orphan_def
  ex_site_def loc_room_def loc_desk_def ref_room_def blank_obj_def empty_netbox_def
  sy_strict_def sy_open_def

lemma sub_locations_have_parent:
  "sl \<in> set (sub_locations_of netbox_sites lwp) \<Longrightarrow> l_parent sl \<noteq> None"
  by (auto simp: sub_locations_of_def split: option.splits)

lemma relationship_updates_linked:
  "\<forall>sl\<in>set subs. \<exists>loc ploc. linked_pair nls sl = Some (loc, ploc) \<and> o_parent loc \<noteq> None \<Longrightarrow>
   relationship_updates sy nls subs acc = Inr (acc @ parent_fixups sy nls subs)"
proof (induction subs arbitrary: acc)
  case Nil
  then show ?case by (simp add: parent_fixups_def)
next
  case (Cons sl rest)
  from Cons.prems obtain loc ploc cur where
    lp: "linked_pair nls sl = Some (loc, ploc)" and cur: "o_parent loc = Some cur"
    by auto
  from lp obtain par where
    f1: "find (\<lambda>item. o_custom_field item = Some (l_id sl)) nls = Some loc"
    and p: "l_parent sl = Some par"
    and f2: "find (\<lambda>item. o_custom_field item = Some (ref_id par)) nls = Some ploc"
    by (auto simp: linked_pair_def split: option.splits)
  from Cons.prems have r: "\<forall>sl\<in>set rest. \<exists>loc ploc. linked_pair nls sl = Some (loc, ploc)
                              \<and> o_parent loc \<noteq> None"
    by simp
  have h: "parent_fixups sy nls (sl # rest) =
        (if cur \<noteq> o_id ploc \<and> allow_updates sy
         then [empty_payload\<lparr>p_id := Some (o_id loc), p_parent := Some (o_id ploc)\<rparr>]
         else []) @ parent_fixups sy nls rest"
    by (simp add: parent_fixups_def lp cur)
  show ?case
    by (simp add: f1 p f2 cur Cons.IH[OF r] h)
qed

lemma relationship_updates_violation:
  assumes "\<forall>sl\<in>set subs. l_parent sl \<noteq> None"
    and "\<forall>sl\<in>set subs. \<forall>loc ploc. linked_pair nls sl = Some (loc, ploc) \<longrightarrow> o_parent loc \<noteq> None"
    and "\<exists>sl\<in>set subs. linked_pair nls sl = None"
  shows "relationship_updates sy nls subs acc = Inl AssertionError"
  using assms
proof (induction subs arbitrary: acc)
  case Nil
  then show ?case by simp
next
  case (Cons sl rest)
  from Cons.prems(1) obtain par where p: "l_parent sl = Some par" by auto
  show ?case
  proof (cases "linked_pair nls sl")
    case None
    with p show ?thesis
      by (auto simp: linked_pair_def split: option.splits)
  next
    case (Some pr)
    obtain loc ploc where pr: "pr = (loc, ploc)" by (cases pr)
    from Some pr Cons.prems(2) obtain cur where cur: "o_parent loc = Some cur" by auto
    from Some pr p have
      f1: "find (\<lambda>item. o_custom_field item = Some (l_id sl)) nls = Some loc"
      and f2: "find (\<lambda>item. o_custom_field item = Some (ref_id par)) nls = Some ploc"
      by (auto simp: linked_pair_def split: option.splits)
    from Cons.prems Some have r: "\<forall>sl\<in>set rest. l_parent sl \<noteq> None"
      "\<forall>sl\<in>set rest. \<forall>loc ploc. linked_pair nls sl = Some (loc, ploc) \<longrightarrow> o_parent loc \<noteq> None"
      "\<exists>sl\<in>set rest. linked_pair nls sl = None"
      by auto
    show ?thesis
      by (simp add: f1 p f2 cur Cons.IH[OF r])
  qed
qed

text \<open>
  Without \<^verbatim>\<open>--allow-update\<close> the stage leaves the parent of Desk as it is: the target of
  Desk hangs under location 9 before and after, not under the target of Room (1).
\<close>

lemma relationship_stage_gated:
  "sub_locations_of [ex_site] [loc_room, loc_desk] = [loc_desk]
   \<and> linked_pair (nb_all Location st_moved) loc_desk = Some (t_desk, t_room)
   \<and> fst (sync_location_relationships sy_strict [loc_desk] st_moved) = Inr ()
   \<and> map (\<lambda>x. (o_id x, o_parent x))
        (nb_table (snd (sync_location_relationships sy_strict [loc_desk] st_moved)) Location)
      = [(1, None), (9, None), (2, Some 9)]"
  by (simp add: sub_locations_of_def linked_pair_def sync_location_relationships_def
      nb_all_def resolve_def nb_update_def c6_defs)

text \<open>
  A target location without parent, as the first pass creates it, makes the comparison
  \<^verbatim>\<open>present_nb_loc["parent"]["id"]\<close> raise TypeError: the stage ends there.
\<close>

lemma relationship_stage_fresh_location:
  "sync_location_relationships sy_open [loc_desk] st_fresh = (Inl TypeError, st_fresh)"
  by (simp add: sync_location_relationships_def nb_all_def resolve_def c6_defs)

text \<open>
  The stage on target locations that have a parent. For the sub-locations (the
  locations whose parent is not linked to a site), when every target location linked
  to one of them has a parent: if each sub-location and its parent are linked to a
  target location, the stage sends one update call with the batch \<open>parent_fixups\<close>, which
  holds the new parent of each target location whose parent differs when updating is
  allowed and is empty otherwise; if some sub-location or its parent is not linked, the
  stage raises AssertionError and writes nothing.
\<close>

lemma relationship_stage_batch:
  assumes "subs = sub_locations_of netbox_sites lwp"
    and "nls = nb_all Location st"
    and "\<forall>sl\<in>set subs. \<forall>loc ploc. linked_pair nls sl = Some (loc, ploc) \<longrightarrow> o_parent loc \<noteq> None"
  shows "((\<forall>sl\<in>set subs. linked_pair nls sl \<noteq> None) \<longrightarrow>
            sync_location_relationships sy subs st
              = (Inr (), nb_update Location (parent_fixups sy nls subs) st)
            \<and> (\<not> allow_updates sy \<longrightarrow> parent_fixups sy nls subs = [])
            \<and> (\<forall>u\<in>set (parent_fixups sy nls subs).
                  \<exists>sl\<in>set subs. \<exists>loc ploc. linked_pair nls sl = Some (loc, ploc)
                     \<and> o_parent loc \<noteq> Some (o_id ploc)
                     \<and> u = empty_payload\<lparr>p_id := Some (o_id loc), p_parent := Some (o_id ploc)\<rparr>))
         \<and> ((\<exists>sl\<in>set subs. linked_pair nls sl = None) \<longrightarrow>
            sync_location_relationships sy subs st = (Inl AssertionError, st))"
proof (intro conjI impI)
  assume a: "\<forall>sl\<in>set subs. linked_pair nls sl \<noteq> None"
  with assms(3) have "\<forall>sl\<in>set subs. \<exists>loc ploc. linked_pair nls sl = Some (loc, ploc)
                         \<and> o_parent loc \<noteq> None"
    by fastforce
  from relationship_updates_linked[OF this, of sy "[]"] assms(2)
  show "sync_location_relationships sy subs st
          = (Inr (), nb_update Location (parent_fixups sy nls subs) st)"
    by (simp add: sync_location_relationships_def)
next
  assume "\<not> allow_updates sy"
  then show "parent_fixups sy nls subs = []"
    by (auto simp: parent_fixups_def split: option.splits)
next
  show "\<forall>u\<in>set (parent_fixups sy nls subs).
          \<exists>sl\<in>set subs. \<exists>loc ploc. linked_pair nls sl = Some (loc, ploc)
             \<and> o_parent loc \<noteq> Some (o_id ploc)
             \<and> u = empty_payload\<lparr>p_id := Some (o_id loc), p_parent := Some (o_id ploc)\<rparr>"
  proof
    fix u
    assume "u \<in> set (parent_fixups sy nls subs)"
    then obtain sl where m: "sl \<in> set subs"
      and e: "u \<in> set (case linked_pair nls sl of
                None \<Rightarrow> []
              | Some (loc, ploc) \<Rightarrow>
                  if o_parent loc \<noteq> Some (o_id ploc) \<and> allow_updates sy
                  then [empty_payload\<lparr>p_id := Some (o_id loc), p_parent := Some (o_id ploc)\<rparr>]
                  else [])"
      by (auto simp: parent_fixups_def)
    from e obtain loc ploc where lp: "linked_pair nls sl = Some (loc, ploc)"
      by (cases "linked_pair nls sl") auto
    from e lp have n: "o_parent loc \<noteq> Some (o_id ploc)"
      and u: "u = empty_payload\<lparr>p_id := Some (o_id loc), p_parent := Some (o_id ploc)\<rparr>"
      by (auto split: if_splits)
    from m lp n u
    show "\<exists>sl\<in>set subs. \<exists>loc ploc. linked_pair nls sl = Some (loc, ploc)
             \<and> o_parent loc \<noteq> Some (o_id ploc)
             \<and> u = empty_payload\<lparr>p_id := Some (o_id loc), p_parent := Some (o_id ploc)\<rparr>"
      by blast
  qed
next
  assume v: "\<exists>sl\<in>set subs. linked_pair nls sl = None"
  from assms(1) have "\<forall>sl\<in>set subs. l_parent sl \<noteq> None"
    using sub_locations_have_parent by blast
  from relationship_updates_violation[OF this assms(3) v, of sy "[]"] assms(2)
  show "sync_location_relationships sy subs st = (Inl AssertionError, st)"
    by (simp add: sync_location_relationships_def)
qed

text \<open>
  The tree HQ > Room > Desk with a target of Desk that hangs under location 9. With
  updating allowed, the target of Desk is moved under the target of Room by the one
  update sent; with the target of Room missing, the stage raises AssertionError and the
  store is unchanged.
\<close>

lemma relationship_stage_batch_example:
  "sub_locations_of [ex_site] [loc_room, loc_desk] = [loc_desk]
   \<and> linked_pair (nb_all Location st_moved) loc_desk = Some (t_desk, t_room)
   \<and> fst (sync_location_relationships sy_open [loc_desk] st_moved) = Inr ()
   \<and> nb_calls (snd (sync_location_relationships sy_open [loc_desk] st_moved))
       = [Update Location [empty_payload\<lparr>p_id := Some 2, p_parent := Some 1\<rparr>]]
   \<and> map (\<lambda>x. (o_id x, o_parent x))
        (nb_table (snd (sync_location_relationships sy_open [loc_desk] st_moved)) Location)
      = [(1, None), (9, None), (2, Some 1)]
   \<and> linked_pair (nb_all Location st_orphan) loc_desk = None
   \<and> sync_location_relationships sy_open [loc_desk] st_orphan = (Inl AssertionError, st_orphan)"
proof -
  have s: "[loc_desk] = sub_locations_of [ex_site] [loc_room, loc_desk]"
    by (simp add: sub_locations_of_def c6_defs)
  have l1: "linked_pair (nb_all Location st_moved) loc_desk = Some (t_desk, t_room)"
    by (simp add: linked_pair_def nb_all_def resolve_def c6_defs)
  have l2: "linked_pair (nb_all Location st_orphan) loc_desk = None"
    by (simp add: linked_pair_def nb_all_def resolve_def c6_defs)
  have p1: "o_parent t_desk \<noteq> None" by (simp add: t_desk_def)
  have f: "parent_fixups sy_open (nb_all Location st_moved) [loc_desk]
             = [empty_payload\<lparr>p_id := Some 2, p_parent := Some 1\<rparr>]"
    by (simp add: parent_fixups_def l1) (simp add: c6_defs)
  from relationship_stage_batch[OF s refl, of st_moved sy_open] l1 p1
  have a: "sync_location_relationships sy_open [loc_desk] st_moved
             = (Inr (), nb_update Location
                  (parent_fixups sy_open (nb_all Location st_moved) [loc_desk]) st_moved)"
    by simp
  from relationship_stage_batch[OF s refl, of st_orphan sy_open] l2
  have b: "sync_location_relationships sy_open [loc_desk] st_orphan = (Inl AssertionError, st_orphan)"
    by simp
  have c: "nb_calls (nb_update Location [empty_payload\<lparr>p_id := Some 2, p_parent := Some 1\<rparr>] st_moved)
             = [Update Location [empty_payload\<lparr>p_id := Some 2, p_parent := Some 1\<rparr>]]"
    by (simp add: nb_update_def st_moved_def empty_netbox_def)
  have d: "map (\<lambda>x. (o_id x, o_parent x))
        (nb_table (nb_update Location [empty_payload\<lparr>p_id := Some 2, p_parent := Some 1\<rparr>] st_moved)
           Location)
      = [(1, None), (9, None), (2, Some 1)]"
    by (simp add: nb_update_def apply_update_def apply_payload_def empty_payload_def or_else_def
        c6_defs)
  from s l1 l2 a b c d f show ?thesis by simp
qed

text \<open>
  When no target location has a parent, the stage raises at its first sub-location, on
  an assertion or on the comparison of the parents, and writes nothing.
\<close>

lemma relationship_stage_no_parents:
  assumes "\<forall>x\<in>set (nb_all Location st). o_parent x = None" and "subs \<noteq> []"
  shows "\<exists>e. sync_location_relationships sy subs st = (Inl e, st)"
proof -
  from assms(2) obtain sl rest where subs: "subs = sl # rest" by (cases subs) auto
  have "\<exists>e. relationship_updates sy (nb_all Location st) (sl # rest) [] = Inl e"
  proof (cases "find (\<lambda>item. o_custom_field item = Some (l_id sl)) (nb_all Location st)")
    case None
    then show ?thesis by simp
  next
    case (Some loc)
    from find_Some_set[OF Some] assms(1) have p: "o_parent loc = None" by blast
    with Some show ?thesis by (simp split: option.splits)
  qed
  then show ?thesis by (auto simp: sync_location_relationships_def subs)
qed

subsection \<open>C2: the pass run twice\<close>

lemmas pass_defs = full_pass_def sync_companies_to_tenants_def sync_company_def
  sync_manufacturers_def sync_manufacturer_def sync_models_to_device_types_def sync_model_def
  manuf_id_def find_devtype_by_name_def devtype_update_obj_def sync_top_locations_to_sites_def
  sync_top_location_def sync_locations_def sync_location_def sync_location_in_site_def
  find_location_by_name_def sub_locations_of_def sync_location_relationships_def
  sync_assets_to_devices_def bind_e_def deref_def

lemmas rec_defs = rec_tenant_def rec_manuf_def rec_devtype_def rec_site_def rec_location_def
  rec_role_def rec_device_def asset_acme_def ref_room_def ex2_defs asset_defs

text \<open>
  Claim C2 (idempotence). The pass over \<open>ex_data\<close> in an empty NetBox ends without
  exception and leaves the records of \<open>st_first\<close>. The same pass run again on that state
  is not free of writes: \<^verbatim>\<open>__get_role_from_category\<close> creates a role from its name and
  slug only, without the linkage key that every other creation writes, so the second
  pass finds the role by name only and sends an update that stamps the category id on
  it. (The relationship stage also calls \<^verbatim>\<open>update\<close> with an empty list in every pass.)
\<close>

theorem C2_second_pass_stamps_role:
  "(case full_pass sy_open ''now'' ex_data empty_netbox of
      None \<Rightarrow> False
    | Some (r, st) \<Rightarrow> r = Inr () \<and> map (nb_table st) all_kinds = map (nb_table st_first) all_kinds)
   \<and> (case full_pass sy_open ''now'' ex_data st_first of
         None \<Rightarrow> False
       | Some (r, st') \<Rightarrow> r = Inr ()
           \<and> new_calls st_first st'
              = [Update Location [],
                 Update DeviceRole [empty_payload\<lparr>p_id := Some 1, p_custom_fields := Some 3\<rparr>]])"
proof -
  have a: "case full_pass sy_open ''now'' ex_data empty_netbox of
      None \<Rightarrow> False
    | Some (r, st) \<Rightarrow> r = Inr () \<and> map (nb_table st) all_kinds = map (nb_table st_first) all_kinds"
    by (simp add: ex_data_def pass_defs ex_defs store_defs string_defs device_defs rec_defs
        find_site.simps all_kinds_def st_first_def Let_def)
  have b: "case full_pass sy_open ''now'' ex_data st_first of
         None \<Rightarrow> False
       | Some (r, st') \<Rightarrow> r = Inr ()
           \<and> new_calls st_first st'
              = [Update Location [],
                 Update DeviceRole [empty_payload\<lparr>p_id := Some 1, p_custom_fields := Some 3\<rparr>]]"
    by (simp add: ex_data_def pass_defs ex_defs store_defs string_defs device_defs rec_defs
        find_site.simps all_kinds_def st_first_def Let_def)
  from a b show ?thesis by simp
qed

subsection \<open>C6: the tree of the specification\<close>

text \<open>
  Claim C6 (relationship stage). On the tree A > B > C of the specification and an
  empty NetBox the first pass creates the site and the two locations and then fails in
  the relationship stage: Desk and its parent Room are both linked, so both
  assertions hold, but the location of Desk was created without parent and the
  comparison \<^verbatim>\<open>present_nb_loc["parent"]["id"]\<close> raises TypeError before the stage writes
  anything. The next pass finds everything linked and fails at the same place, the
  store unchanged: the parent of a location that the engine created is never set.
\<close>

theorem C6_fixup_raises_on_created_location:
  "(case full_pass sy_open ''now'' ex_tree empty_netbox of
      None \<Rightarrow> False
    | Some (r, st) \<Rightarrow> r = Inl TypeError
        \<and> map (nb_table st) all_kinds = map (nb_table st_tree) all_kinds)
   \<and> sub_locations_of (nb_all Site st_tree) [loc_room, loc_desk] = [loc_desk]
   \<and> find (\<lambda>item. o_custom_field item = Some (l_id loc_desk)) (nb_all Location st_tree)
       = Some rec_desk
   \<and> find (\<lambda>item. o_custom_field item = Some (ref_id ref_room)) (nb_all Location st_tree)
       = Some rec_location
   \<and> map o_parent (nb_table st_tree Location) = [None, None]
   \<and> sync_location_relationships sy_open [loc_desk] st_tree = (Inl TypeError, st_tree)
   \<and> full_pass sy_open ''now'' ex_tree st_tree = Some (Inl TypeError, st_tree)"
proof -
  have a: "case full_pass sy_open ''now'' ex_tree empty_netbox of
      None \<Rightarrow> False
    | Some (r, st) \<Rightarrow> r = Inl TypeError
        \<and> map (nb_table st) all_kinds = map (nb_table st_tree) all_kinds"
    by (simp add: ex_tree_def st_tree_def rec_desk_def loc_desk_def pass_defs ex_defs store_defs
        string_defs device_defs rec_defs find_site.simps all_kinds_def Let_def)
  have b: "sub_locations_of (nb_all Site st_tree) [loc_room, loc_desk] = [loc_desk]
   \<and> find (\<lambda>item. o_custom_field item = Some (l_id loc_desk)) (nb_all Location st_tree)
       = Some rec_desk
   \<and> find (\<lambda>item. o_custom_field item = Some (ref_id ref_room)) (nb_all Location st_tree)
       = Some rec_location
   \<and> map o_parent (nb_table st_tree Location) = [None, None]
   \<and> sync_location_relationships sy_open [loc_desk] st_tree = (Inl TypeError, st_tree)"
    by (simp add: st_tree_def rec_desk_def loc_desk_def pass_defs ex_defs store_defs
        rec_defs Let_def)
  have c: "full_pass sy_open ''now'' ex_tree st_tree = Some (Inl TypeError, st_tree)"
    by (simp add: ex_tree_def st_tree_def rec_desk_def loc_desk_def pass_defs ex_defs store_defs
        string_defs device_defs rec_defs find_site.simps all_kinds_def Let_def)
  from a b c show ?thesis by simp
qed

subsection \<open>C3: assets without company\<close>

lemmas c3b_defs = asset_room_def dev_tagged_def dev_made_def role_linked_def st_bare_def
  st_tagged_def st_made_def

text \<open>
  With a tenant resolved, and a device that has one, the match by asset tag is followed
  by the update that stamps the linkage key.
\<close>

lemma tag_match_with_tenant_stamps:
  "\<exists>u. new_calls st_tagged
         (snd (sync_device sy_open (Some rec_devtype) (Some ex_ref)
                 [dev_tagged\<lparr>o_tenant := Some 1\<rparr>] role_linked (SiteRec 1) asset_room st_tagged))
        = [Update Device [u]]
      \<and> p_id u = Some 1 \<and> p_custom_fields u = Some 7"
  by (simp add: c3b_defs rec_defs ex_defs store_defs device_defs string_defs bind_e_def
      deref_def Let_def)

text \<open>
  Claim C3 (device matching precedence). The order of the three searches is the one
  claimed, but the update that follows a match by linkage key or by asset tag is not
  made for an asset without company: \<^verbatim>\<open>__update_device\<close> indexes \<^verbatim>\<open>nb_tenant\<close> and the
  tenant of the device without testing them for \<^verbatim>\<open>None\<close>, as the creation of a device
  does, and raises TypeError before it writes. So the device that carries the tag of
  \<open>asset_room\<close> is neither updated nor stamped with the linkage key, and the device that
  a first pass creates for the asset, matched by its linkage key in the next pass, makes
  that pass raise.
\<close>

theorem C3_update_raises_without_company:
  "a_company asset_room = None
   \<and> asset_tenant (nb_all Tenant st_tagged) asset_room = None
   \<and> find (\<lambda>item. o_custom_field item = Some (a_id asset_room)) (nb_all Device st_tagged) = None
   \<and> find (\<lambda>item. o_asset_tag item = Some (a_asset_tag asset_room)) (nb_all Device st_tagged)
       = Some dev_tagged
   \<and> sync_device sy_open (Some rec_devtype) None [dev_tagged] role_linked (SiteRec 1) asset_room
        st_tagged = (Inl TypeError, st_tagged)
   \<and> sync_assets_to_devices sy_open [asset_room] st_tagged = (Inl TypeError, st_tagged)
   \<and> (case sync_assets_to_devices sy_open [asset_room] st_bare of
         (r, st) \<Rightarrow> r = Inr () \<and> map (nb_table st) all_kinds = map (nb_table st_made) all_kinds)
   \<and> find (\<lambda>item. o_custom_field item = Some (a_id asset_room)) (nb_all Device st_made)
       = Some dev_made
   \<and> sync_device sy_open (Some rec_devtype) None [dev_made] role_linked (SiteRec 1) asset_room
        st_made = (Inl TypeError, st_made)
   \<and> sync_assets_to_devices sy_open [asset_room] st_made = (Inl TypeError, st_made)"
proof -
  have a: "a_company asset_room = None
   \<and> asset_tenant (nb_all Tenant st_tagged) asset_room = None
   \<and> find (\<lambda>item. o_custom_field item = Some (a_id asset_room)) (nb_all Device st_tagged) = None
   \<and> find (\<lambda>item. o_asset_tag item = Some (a_asset_tag asset_room)) (nb_all Device st_tagged)
       = Some dev_tagged
   \<and> find (\<lambda>item. o_custom_field item = Some (a_id asset_room)) (nb_all Device st_made)
       = Some dev_made"
    by (simp add: c3b_defs rec_defs ex_defs store_defs asset_defs)
  have b: "sync_device sy_open (Some rec_devtype) None [dev_tagged] role_linked (SiteRec 1)
             asset_room st_tagged = (Inl TypeError, st_tagged)"
    by (simp add: c3b_defs rec_defs ex_defs store_defs device_defs string_defs bind_e_def
        deref_def Let_def)
  have c: "sync_assets_to_devices sy_open [asset_room] st_tagged = (Inl TypeError, st_tagged)"
    by (simp add: c3b_defs rec_defs ex_defs store_defs device_defs string_defs
        sync_assets_to_devices_def bind_e_def deref_def Let_def)
  have d: "case sync_assets_to_devices sy_open [asset_room] st_bare of
         (r, st) \<Rightarrow> r = Inr () \<and> map (nb_table st) all_kinds = map (nb_table st_made) all_kinds"
    by (simp add: c3b_defs rec_defs ex_defs store_defs device_defs string_defs all_kinds_def
        sync_assets_to_devices_def find_name_tenant_def bind_e_def deref_def Let_def)
  have e: "sync_device sy_open (Some rec_devtype) None [dev_made] role_linked (SiteRec 1)
             asset_room st_made = (Inl TypeError, st_made)"
    by (simp add: c3b_defs rec_defs ex_defs store_defs device_defs string_defs bind_e_def
        deref_def Let_def)
  have f: "sync_assets_to_devices sy_open [asset_room] st_made = (Inl TypeError, st_made)"
    by (simp add: c3b_defs rec_defs ex_defs store_defs device_defs string_defs
        sync_assets_to_devices_def bind_e_def deref_def Let_def)
  from a b c d e f show ?thesis by simp
qed

subsection \<open>C4: a model whose manufacturer has another name\<close>

text \<open>
  Claim C4 (decision table). A model that is found in NetBox neither by linkage key nor
  by name is not always created. \<^verbatim>\<open>sync_models_to_device_types\<close> looks the manufacturer
  of the model up by name and reads \<^verbatim>\<open>manuf_by_model.id\<close> without testing the result
  for \<^verbatim>\<open>None\<close>. In \<open>st_dell\<close> the manufacturer is linked under another name, which
  the manufacturer stage leaves as it is when updating is not allowed: the model stage
  raises AttributeError, no device type is created, and the pass ends there.
\<close>

theorem C4_model_not_created:
  "find (\<lambda>item. o_custom_field item = Some (m_id ex_model)) (nb_all DeviceType st_dell) = None
   \<and> find_devtype_by_name (nb_all DeviceType st_dell) ex_model = Inr None
   \<and> find (\<lambda>item. o_custom_field item = Some (ref_id (m_manufacturer ex_model)))
        (nb_all Manufacturer st_dell) = Some manuf_inc
   \<and> find (\<lambda>item. o_name item = Some (ref_name (m_manufacturer ex_model)))
        (nb_all Manufacturer st_dell) = None
   \<and> sync_manufacturers sy_strict (d_manufacturers data_dell) st_dell = st_dell
   \<and> sync_models_to_device_types sy_strict [ex_model] st_dell = (Inl AttributeError, st_dell)
   \<and> full_pass sy_strict ''now'' data_dell st_dell = Some (Inl AttributeError, st_dell)"
  by (simp add: st_dell_def manuf_inc_def data_dell_def pass_defs ex_defs ex2_defs store_defs
      Let_def)

end
